theory Spec2Isabelle
  imports Complex_Main "HOL-Library.Sublist"
begin

section \<open>Python values and the built-ins the integration calls\<close>

text \<open>
  The exceptions that can leave the modelled functions. \<open>GrowattV1ApiError\<close> and
  \<open>HomeAssistantError\<close> carry the text that \<open>str(err)\<close> gives.
\<close>

datatype error =
    HomeAssistantError string
  | GrowattV1ApiError string
  | ValueError
  | IndexError
  | KeyError
  | OverflowError
  | TypeError
  | AttributeError

text \<open>
  The scalars held by \<open>coordinator.data\<close>: the vendor's JSON gives numbers, strings and
  null; the number entity stores an \<open>int\<close>, the time entities store a \<open>str\<close>.
\<close>

datatype pyval = VInt int | VStr string | VNone

text \<open>
  A \<open>float\<close> as far as \<open>int(value)\<close> sees it: a finite float is a rational number,
  the others are the two infinities and NaN.
\<close>

datatype pyfloat = Finite rat | Infinity | NaN

definition int_of_float :: "pyfloat \<Rightarrow> error + int" where
  "int_of_float v =
     (case v of
        Finite r \<Rightarrow> Inr (if 0 \<le> r then \<lfloor>r\<rfloor> else \<lceil>r\<rceil>)
      | Infinity \<Rightarrow> Inl OverflowError
      | NaN \<Rightarrow> Inl ValueError)"

subsection \<open>\<open>int(str)\<close>\<close>

text \<open>
  \<open>int(s)\<close> in base 10 on a string of code points below 256: white space is stripped at
  both ends, one sign may follow, then decimal digits with single underscores between
  them. More than 4300 digits are refused. Every refusal is a \<open>ValueError\<close>, here
  \<open>None\<close>.
\<close>

definition int_space :: "char \<Rightarrow> bool" where
  "int_space c = ((of_char c :: nat) \<in> set [9, 10, 11, 12, 13, 32, 133, 160])"

definition is_digit :: "char \<Rightarrow> bool" where
  "is_digit c = (48 \<le> (of_char c :: nat) \<and> (of_char c :: nat) \<le> 57)"

definition digit_val :: "char \<Rightarrow> nat" where
  "digit_val c = of_char c - 48"

definition strip :: "string \<Rightarrow> string" where
  "strip s = rev (dropWhile int_space (rev (dropWhile int_space s)))"

fun int_body :: "nat \<Rightarrow> string \<Rightarrow> nat option" where
  "int_body acc [] = Some acc"
| "int_body acc (c # cs) =
     (if is_digit c then int_body (10 * acc + digit_val c) cs
      else if c = CHR ''_'' then
        (case cs of
           [] \<Rightarrow> None
         | d # ds \<Rightarrow> if is_digit d then int_body (10 * acc + digit_val d) ds else None)
      else None)"

definition int_digits :: "string \<Rightarrow> nat option" where
  "int_digits s =
     (case s of
        [] \<Rightarrow> None
      | c # cs \<Rightarrow> if is_digit c then int_body (digit_val c) cs else None)"

definition int_max_str_digits :: nat where
  "int_max_str_digits = 4300"

definition py_int :: "string \<Rightarrow> int option" where
  "py_int s =
     (let t = strip s;
          neg = (t \<noteq> [] \<and> hd t = CHR ''-'');
          body = (if t \<noteq> [] \<and> (hd t = CHR ''-'' \<or> hd t = CHR ''+'') then tl t else t)
      in if int_max_str_digits < length (filter is_digit body) then None
         else (case int_digits body of
                 None \<Rightarrow> None
               | Some n \<Rightarrow> Some (if neg then - int n else int n)))"

text \<open>\<open>int(v)\<close> on a value of \<open>coordinator.data\<close>.\<close>

definition int_of_pyval :: "pyval \<Rightarrow> error + int" where
  "int_of_pyval v =
     (case v of
        VInt i \<Rightarrow> Inr i
      | VStr s \<Rightarrow> (case py_int s of None \<Rightarrow> Inl ValueError | Some i \<Rightarrow> Inr i)
      | VNone \<Rightarrow> Inl TypeError)"

subsection \<open>\<open>str(int)\<close> and the \<open>02d\<close> format\<close>

definition digit_char :: "nat \<Rightarrow> char" where
  "digit_char n = char_of (48 + n)"

function dec_digits :: "nat \<Rightarrow> string" where
  "dec_digits n =
     (if n < 10 then [digit_char n] else dec_digits (n div 10) @ [digit_char (n mod 10)])"
  by pat_completeness auto
termination
  by (relation "measure (\<lambda>n. n)") auto

definition str_of_int :: "int \<Rightarrow> string" where
  "str_of_int i = (if i < 0 then CHR ''-'' # dec_digits (nat (- i)) else dec_digits (nat i))"

text \<open>\<open>f"{n:02d}"\<close> for \<open>n \<ge> 0\<close>: the decimal digits, padded with zeros to width 2.\<close>

definition fmt_02d :: "nat \<Rightarrow> string" where
  "fmt_02d n = (let s = dec_digits n in replicate (2 - length s) CHR ''0'' @ s)"

subsection \<open>\<open>str.split(":")\<close>\<close>

fun split_colon :: "string \<Rightarrow> string list" where
  "split_colon [] = [[]]"
| "split_colon (c # cs) =
     (if c = CHR '':'' then [] # split_colon cs
      else (case split_colon cs of
              [] \<Rightarrow> [[c]]
            | p # ps \<Rightarrow> (c # p) # ps))"

text \<open>\<open>parts[i]\<close> raises \<open>IndexError\<close> out of range.\<close>

definition index :: "'a list \<Rightarrow> nat \<Rightarrow> error + 'a" where
  "index xs i = (if i < length xs then Inr (xs ! i) else Inl IndexError)"

subsection \<open>\<open>datetime.time\<close>\<close>

record dt_time =
  hour :: nat
  minute :: nat
  second :: nat
  microsecond :: nat

text \<open>Every \<open>datetime.time\<close> object has its fields in range.\<close>

definition valid_time :: "dt_time \<Rightarrow> bool" where
  "valid_time t = (hour t < 24 \<and> minute t < 60 \<and> second t < 60 \<and> microsecond t < 1000000)"

text \<open>
  \<open>time(hour=h, minute=m)\<close>: the arguments are first converted to C \<open>int\<close>, which raises
  \<open>OverflowError\<close> outside 32 bits; then the ranges are checked, raising \<open>ValueError\<close>.
\<close>

definition c_int_ok :: "int \<Rightarrow> bool" where
  "c_int_ok i = (- (2 ^ 31) \<le> i \<and> i < 2 ^ 31)"

definition time_new :: "int \<Rightarrow> int \<Rightarrow> error + dt_time" where
  "time_new h m =
     (if c_int_ok h \<and> c_int_ok m then
        (if h < 0 \<or> 23 < h then Inl ValueError
         else if m < 0 \<or> 59 < m then Inl ValueError
         else Inr \<lparr>hour = nat h, minute = nat m, second = 0, microsecond = 0\<rparr>)
      else Inl OverflowError)"

section \<open>The coordinator\<close>

text \<open>
  What the entities use of \<open>GrowattCoordinator\<close>: the device identifier, the device
  family tag, the API version tag, whether \<open>coordinator.api\<close> is an \<open>OpenApiV1\<close>
  instance (the value of \<open>isinstance(self.coordinator.api, OpenApiV1)\<close>), and the
  mutable field-value mapping.
\<close>

record coordinator =
  device_id :: string
  device_type :: string
  api_version :: string
  api_is_OpenApiV1 :: bool
  data :: "string \<rightharpoonup> pyval"

text \<open>
  Modelled from the spec: the class \<open>GrowattCoordinator\<close> (module \<open>coordinator\<close>) is not
  among the sources, so what ties its \<open>api\<close> to its \<open>api_version\<close> is missing. The spec
  gives the coordinator an API-version tag and describes its vendor client as the SDK
  client with the two write operations, which is \<open>OpenApiV1\<close>; the platforms offer
  settings only under the tag \<open>v1\<close>. So a coordinator tagged \<open>v1\<close> holds an \<open>OpenApiV1\<close>
  client.
\<close>

definition api_matches_version :: "coordinator \<Rightarrow> bool" where
  "api_matches_version c = (if api_version c = ''v1'' then api_is_OpenApiV1 c else True)"

section \<open>The vendor SDK and the host, as seen from the integration\<close>

datatype DeviceType = MIN_TLX | SPH_MIX

record ChargeDischargeParams =
  cd_charge_power :: int
  cd_charge_stop_soc :: int
  cd_discharge_power :: int
  cd_discharge_stop_soc :: int
  cd_ac_charge_enabled :: bool

record MixAcChargeTimeParams =
  mc_charge_power :: int
  mc_charge_stop_soc :: int
  mc_mains_enabled :: bool
  mc_start_hour :: nat
  mc_start_minute :: nat
  mc_end_hour :: nat
  mc_end_minute :: nat
  mc_enabled :: bool
  mc_segment_id :: int

record MixAcDischargeTimeParams =
  md_discharge_power :: int
  md_discharge_stop_soc :: int
  md_start_hour :: nat
  md_start_minute :: nat
  md_end_hour :: nat
  md_end_minute :: nat
  md_enabled :: bool
  md_segment_id :: int

datatype time_segment_params =
    ChargeTime MixAcChargeTimeParams
  | DischargeTime MixAcDischargeTimeParams

text \<open>
  The two write operations of the vendor client, with their arguments: device identifier,
  device type, parameter or segment identifier, parameter record.
\<close>

datatype api_call =
    Write_parameter string DeviceType string ChargeDischargeParams
  | Write_time_segment string DeviceType string time_segment_params

text \<open>
  What a press or an edit does to the world outside, in order: a vendor call with the
  exception it raised, if any; the coordinator's refresh request; the entity's state
  write to the host.
\<close>

datatype event =
    Vendor api_call "error option"
  | Async_request_refresh
  | Async_write_ha_state

section \<open>time.py\<close>

definition MIN_TLX_FIELD_TEMPLATES :: "(string \<times> string) list" where
  "MIN_TLX_FIELD_TEMPLATES =
     [(''start_time'', ''timeSegmentStart{segment_id}''),
      (''stop_time'', ''timeSegmentStop{segment_id}''),
      (''enabled'', ''timeSegmentEnabled{segment_id}'')]"

definition SPH_MIX_CHARGE_FIELD_TEMPLATES :: "(string \<times> string) list" where
  "SPH_MIX_CHARGE_FIELD_TEMPLATES =
     [(''start_time'', ''forcedChargeTimeStart{segment_id}''),
      (''stop_time'', ''forcedChargeTimeStop{segment_id}''),
      (''enabled'', ''forcedChargeStopSwitch{segment_id}'')]"

definition SPH_MIX_DISCHARGE_FIELD_TEMPLATES :: "(string \<times> string) list" where
  "SPH_MIX_DISCHARGE_FIELD_TEMPLATES =
     [(''start_time'', ''forcedDischargeTimeStart{segment_id}''),
      (''stop_time'', ''forcedDischargeTimeStop{segment_id}''),
      (''enabled'', ''forcedDischargeStopSwitch{segment_id}'')]"

text \<open>\<open>template.format(segment_id=v)\<close>: every \<open>{segment_id}\<close> is replaced by \<open>v\<close>.\<close>

fun format_segment_id :: "string \<Rightarrow> string \<Rightarrow> string" where
  "format_segment_id [] v = []"
| "format_segment_id (c # cs) v =
     (if prefix ''{segment_id}'' (c # cs) then v @ format_segment_id (drop 11 cs) v
      else c # format_segment_id cs v)"

text \<open>The four entity classes of time.py.\<close>

datatype time_class =
    GrowattChargeStartTimeEntity
  | GrowattChargeEndTimeEntity
  | GrowattDischargeStartTimeEntity
  | GrowattDischargeEndTimeEntity

record time_entity =
  time_class :: time_class
  segment_id :: int

definition is_charge_class :: "time_class \<Rightarrow> bool" where
  "is_charge_class k = (k = GrowattChargeStartTimeEntity \<or> k = GrowattChargeEndTimeEntity)"

definition get_field_name :: "time_entity \<Rightarrow> coordinator \<Rightarrow> string \<Rightarrow> error + string" where
  "get_field_name e c field_type =
     (let templates =
            (if device_type c = ''tlx'' then MIN_TLX_FIELD_TEMPLATES
             else if is_charge_class (time_class e) then SPH_MIX_CHARGE_FIELD_TEMPLATES
             else SPH_MIX_DISCHARGE_FIELD_TEMPLATES)
      in case map_of templates field_type of
           None \<Rightarrow> Inl KeyError
         | Some template \<Rightarrow> Inr (format_segment_id template (str_of_int (segment_id e))))"

text \<open>The field type each class reads and writes, and its fall-back values.\<close>

definition class_field_type :: "time_class \<Rightarrow> string" where
  "class_field_type k =
     (case k of
        GrowattChargeStartTimeEntity \<Rightarrow> ''start_time''
      | GrowattChargeEndTimeEntity \<Rightarrow> ''stop_time''
      | GrowattDischargeStartTimeEntity \<Rightarrow> ''start_time''
      | GrowattDischargeEndTimeEntity \<Rightarrow> ''stop_time'')"

definition class_default_str :: "time_class \<Rightarrow> string" where
  "class_default_str k =
     (case k of
        GrowattChargeStartTimeEntity \<Rightarrow> ''14:00''
      | GrowattChargeEndTimeEntity \<Rightarrow> ''16:00''
      | GrowattDischargeStartTimeEntity \<Rightarrow> ''00:00''
      | GrowattDischargeEndTimeEntity \<Rightarrow> ''00:00'')"

definition class_default_time :: "time_class \<Rightarrow> error + dt_time" where
  "class_default_time k =
     (case k of
        GrowattChargeStartTimeEntity \<Rightarrow> time_new 14 0
      | GrowattChargeEndTimeEntity \<Rightarrow> time_new 16 0
      | GrowattDischargeStartTimeEntity \<Rightarrow> time_new 0 0
      | GrowattDischargeEndTimeEntity \<Rightarrow> time_new 0 0)"

text \<open>The body of the \<open>try\<close> in \<open>native_value\<close>, in Python's evaluation order.\<close>

definition parse_time_str :: "string \<Rightarrow> error + dt_time" where
  "parse_time_str s =
     (let parts = split_colon s
      in case index parts 0 of
           Inl err \<Rightarrow> Inl err
         | Inr p0 \<Rightarrow>
             (case py_int p0 of
                None \<Rightarrow> Inl ValueError
              | Some h \<Rightarrow>
                  (case index parts 1 of
                     Inl err \<Rightarrow> Inl err
                   | Inr p1 \<Rightarrow>
                       (case py_int p1 of
                          None \<Rightarrow> Inl ValueError
                        | Some m \<Rightarrow> time_new h m))))"

text \<open>
  \<open>native_value\<close>: \<open>data.get(field, default)\<close>, then the \<open>try\<close> whose handler catches
  \<open>ValueError\<close> and \<open>IndexError\<close> only. A stored value that is not a string has no
  \<open>split\<close>.
\<close>

definition native_value :: "time_entity \<Rightarrow> coordinator \<Rightarrow> error + dt_time" where
  "native_value e c =
     (case get_field_name e c (class_field_type (time_class e)) of
        Inl err \<Rightarrow> Inl err
      | Inr field \<Rightarrow>
          (case (case data c field of None \<Rightarrow> VStr (class_default_str (time_class e)) | Some v \<Rightarrow> v) of
             VStr s \<Rightarrow>
               (case parse_time_str s of
                  Inl ValueError \<Rightarrow> class_default_time (time_class e)
                | Inl IndexError \<Rightarrow> class_default_time (time_class e)
                | r \<Rightarrow> r)
           | _ \<Rightarrow> Inl AttributeError))"

text \<open>
  \<open>async_set_value\<close>: the new coordinator and the host calls made; the only one is
  \<open>async_write_ha_state\<close>.
\<close>

definition async_set_value ::
    "time_entity \<Rightarrow> coordinator \<Rightarrow> dt_time \<Rightarrow> error + coordinator \<times> event list" where
  "async_set_value e c v =
     (case get_field_name e c (class_field_type (time_class e)) of
        Inl err \<Rightarrow> Inl err
      | Inr field \<Rightarrow>
          (let time_str = fmt_02d (hour v) @ '':'' @ fmt_02d (minute v)
           in Inr (c\<lparr>data := (data c)(field \<mapsto> VStr time_str)\<rparr>, [Async_write_ha_state])))"

section \<open>number.py\<close>

record GrowattNumberEntityDescription =
  key :: string
  translation_key :: string
  api_key :: string
  write_key :: "string option"
  native_step :: int
  native_min_value :: int
  native_max_value :: int

definition percent_setting :: "string \<Rightarrow> string \<Rightarrow> GrowattNumberEntityDescription" where
  "percent_setting k a =
     \<lparr>key = k, translation_key = k, api_key = a, write_key = Some k,
      native_step = 1, native_min_value = 0, native_max_value = 100\<rparr>"

definition MIN_NUMBER_TYPES :: "GrowattNumberEntityDescription list" where
  "MIN_NUMBER_TYPES =
     [percent_setting ''charge_power'' ''chargePowerCommand'',
      percent_setting ''charge_stop_soc'' ''wchargeSOCLowLimit'',
      percent_setting ''discharge_power'' ''disChargePowerCommand'',
      percent_setting ''discharge_stop_soc'' ''wdisChargeSOCLowLimit'']"

definition MIX_NUMBER_TYPES :: "GrowattNumberEntityDescription list" where
  "MIX_NUMBER_TYPES =
     [percent_setting ''charge_power'' ''chargePowerCommand'',
      percent_setting ''charge_stop_soc'' ''wchargeSOCLowLimit1'',
      percent_setting ''discharge_power'' ''disChargePowerCommand'',
      percent_setting ''discharge_stop_soc'' ''loadFirstStopSocSet'']"

text \<open>
  \<open>GrowattNumber.async_set_native_value\<close>: \<open>int(value)\<close>, the store into
  \<open>coordinator.data\<close>, then \<open>async_write_ha_state\<close>.
\<close>

definition async_set_native_value ::
    "GrowattNumberEntityDescription \<Rightarrow> coordinator \<Rightarrow> pyfloat \<Rightarrow> error + coordinator \<times> event list" where
  "async_set_native_value d c v =
     (case int_of_float v of
        Inl err \<Rightarrow> Inl err
      | Inr int_value \<Rightarrow>
          Inr (c\<lparr>data := (data c)(api_key d \<mapsto> VInt int_value)\<rparr>, [Async_write_ha_state]))"

section \<open>button.py\<close>

subsection \<open>The host: entity registry, state machine, and two parsers\<close>

record registry_entry =
  platform :: string
  unique_id :: string
  entity_id :: string

text \<open>
  \<open>entities\<close> is \<open>entity_reg.entities.values()\<close> in iteration order; \<open>states\<close> gives the
  \<open>state\<close> string of the \<open>State\<close> object that \<open>hass.states.get\<close> returns, \<open>None\<close> when
  it returns \<open>None\<close>.
\<close>

record hass =
  entities :: "registry_entry list"
  states :: "string \<rightharpoonup> string"

text \<open>
  \<open>int(float(s))\<close> and \<open>datetime.time.fromisoformat(s)\<close> are taken as they come from
  the Python runtime: any function from strings to a value or an exception.
\<close>

record python =
  int_float :: "string \<Rightarrow> error + int"
  fromisoformat :: "string \<Rightarrow> error + dt_time"

text \<open>The vendor client: for each call, the exception it raises, if any.\<close>

type_synonym vendor = "api_call \<Rightarrow> error option"

subsection \<open>Sequencing with a trace of the calls made\<close>

type_synonym 'a io = "(error + 'a) \<times> event list"

definition lift :: "error + 'a \<Rightarrow> 'a io" where
  "lift r = (r, [])"

definition bind :: "'a io \<Rightarrow> ('a \<Rightarrow> 'b io) \<Rightarrow> 'b io" where
  "bind m f =
     (case m of
        (Inl err, tr) \<Rightarrow> (Inl err, tr)
      | (Inr x, tr) \<Rightarrow> (case f x of (r, tr') \<Rightarrow> (r, tr @ tr')))"

text \<open>\<open>await hass.async_add_executor_job(api.write_..., ...)\<close>\<close>

definition executor_job :: "vendor \<Rightarrow> api_call \<Rightarrow> unit io" where
  "executor_job api a =
     (case api a of
        None \<Rightarrow> (Inr (), [Vendor a None])
      | Some err \<Rightarrow> (Inl err, [Vendor a (Some err)]))"

text \<open>\<open>sep.join(xs)\<close>\<close>

fun join :: "string \<Rightarrow> string list \<Rightarrow> string" where
  "join sep [] = []"
| "join sep [x] = x"
| "join sep (x # y # ys) = x @ sep @ join sep (y # ys)"

subsection \<open>Locating the sibling entities\<close>

record siblings =
  power_entity :: "string option"
  stop_soc_entity :: "string option"
  start_entity :: "string option"
  end_entity :: "string option"
  enabled_entity :: "string option"

definition no_siblings :: siblings where
  "no_siblings =
     \<lparr>power_entity = None, stop_soc_entity = None, start_entity = None,
      end_entity = None, enabled_entity = None\<rparr>"

text \<open>One iteration of the loop over the registry in \<open>_apply_charge_settings\<close>.\<close>

definition charge_scan :: "hass \<Rightarrow> string \<Rightarrow> siblings \<Rightarrow> registry_entry \<Rightarrow> siblings" where
  "charge_scan h dev acc entity =
     (if platform entity = ''growatt_server'' \<and> sublist dev (unique_id entity) then
        (if suffix ''_charge_power'' (unique_id entity)
           then acc\<lparr>power_entity := states h (entity_id entity)\<rparr>
         else if suffix ''_charge_stop_soc'' (unique_id entity)
           then acc\<lparr>stop_soc_entity := states h (entity_id entity)\<rparr>
         else if suffix ''_charge_start_time_1'' (unique_id entity)
           then acc\<lparr>start_entity := states h (entity_id entity)\<rparr>
         else if suffix ''_charge_end_time_1'' (unique_id entity)
           then acc\<lparr>end_entity := states h (entity_id entity)\<rparr>
         else if suffix ''_charge_period_1_enabled'' (unique_id entity)
           then acc\<lparr>enabled_entity := states h (entity_id entity)\<rparr>
         else acc)
      else acc)"

definition charge_siblings :: "hass \<Rightarrow> coordinator \<Rightarrow> siblings" where
  "charge_siblings h c = foldl (charge_scan h (device_id c)) no_siblings (entities h)"

text \<open>The same loop in \<open>_apply_discharge_settings\<close>.\<close>

definition discharge_scan :: "hass \<Rightarrow> string \<Rightarrow> siblings \<Rightarrow> registry_entry \<Rightarrow> siblings" where
  "discharge_scan h dev acc entity =
     (if platform entity = ''growatt_server'' \<and> sublist dev (unique_id entity) then
        (if suffix ''_discharge_power'' (unique_id entity)
           then acc\<lparr>power_entity := states h (entity_id entity)\<rparr>
         else if suffix ''_discharge_stop_soc'' (unique_id entity)
           then acc\<lparr>stop_soc_entity := states h (entity_id entity)\<rparr>
         else if suffix ''_discharge_start_time_1'' (unique_id entity)
           then acc\<lparr>start_entity := states h (entity_id entity)\<rparr>
         else if suffix ''_discharge_end_time_1'' (unique_id entity)
           then acc\<lparr>end_entity := states h (entity_id entity)\<rparr>
         else if suffix ''_discharge_period_1_enabled'' (unique_id entity)
           then acc\<lparr>enabled_entity := states h (entity_id entity)\<rparr>
         else acc)
      else acc)"

definition discharge_siblings :: "hass \<Rightarrow> coordinator \<Rightarrow> siblings" where
  "discharge_siblings h c = foldl (discharge_scan h (device_id c)) no_siblings (entities h)"

definition vendor_device_type :: "coordinator \<Rightarrow> DeviceType" where
  "vendor_device_type c = (if device_type c = ''tlx'' then MIN_TLX else SPH_MIX)"

subsection \<open>\<open>_apply_charge_settings\<close>\<close>

text \<open>
  The list built by the \<open>missing.append\<close> calls, in the TLX branch and in the MIX
  branch. A \<open>State\<close> object is truthy, so \<open>not entity\<close> holds exactly for \<open>None\<close>.
\<close>

definition charge_missing_tlx :: "coordinator \<Rightarrow> siblings \<Rightarrow> string list" where
  "charge_missing_tlx c f =
     (if power_entity f = None then [''number.'' @ device_id c @ ''_charge_power''] else [])
     @ (if stop_soc_entity f = None then [''number.'' @ device_id c @ ''_charge_stop_soc''] else [])"

definition charge_missing_mix :: "coordinator \<Rightarrow> siblings \<Rightarrow> string list" where
  "charge_missing_mix c f =
     (if start_entity f = None then [''time.'' @ device_id c @ ''_charge_start_time''] else [])
     @ (if end_entity f = None then [''time.'' @ device_id c @ ''_charge_end_time''] else [])
     @ (if enabled_entity f = None
          then [''switch.'' @ device_id c @ ''_charge_period_1_enabled''] else [])
     @ (if power_entity f = None then [''number.'' @ device_id c @ ''_charge_power''] else [])
     @ (if stop_soc_entity f = None then [''number.'' @ device_id c @ ''_charge_stop_soc''] else [])"

definition charge_missing_msg :: "string list \<Rightarrow> string" where
  "charge_missing_msg missing =
     ''Could not find all charge setting entities. Missing: '' @ join '', '' missing"

definition charge_power_params :: "int \<Rightarrow> ChargeDischargeParams" where
  "charge_power_params charge_power =
     \<lparr>cd_charge_power = charge_power, cd_charge_stop_soc = 0, cd_discharge_power = 0,
      cd_discharge_stop_soc = 0, cd_ac_charge_enabled = False\<rparr>"

definition charge_soc_params :: "int \<Rightarrow> ChargeDischargeParams" where
  "charge_soc_params charge_stop_soc =
     \<lparr>cd_charge_power = 0, cd_charge_stop_soc = charge_stop_soc, cd_discharge_power = 0,
      cd_discharge_stop_soc = 0, cd_ac_charge_enabled = False\<rparr>"

text \<open>\<open>bool(int(self.coordinator.data.get("acChargeEnable", 0)))\<close>\<close>

definition mains_enabled :: "coordinator \<Rightarrow> error + bool" where
  "mains_enabled c =
     (case int_of_pyval (case data c ''acChargeEnable'' of None \<Rightarrow> VInt 0 | Some v \<Rightarrow> v) of
        Inl err \<Rightarrow> Inl err
      | Inr i \<Rightarrow> Inr (i \<noteq> 0))"

definition apply_charge_settings :: "python \<Rightarrow> vendor \<Rightarrow> hass \<Rightarrow> coordinator \<Rightarrow> unit io" where
  "apply_charge_settings py api h c =
     (let f = charge_siblings h c;
          dt = vendor_device_type c
      in if api_is_OpenApiV1 c then
           (if device_type c = ''tlx'' then
              (case (power_entity f, stop_soc_entity f) of
                 (Some power_state, Some stop_soc_state) \<Rightarrow>
                   bind (lift (int_float py power_state)) (\<lambda>charge_power.
                   bind (lift (int_float py stop_soc_state)) (\<lambda>charge_stop_soc.
                   bind (executor_job api
                           (Write_parameter (device_id c) dt ''charge_power''
                              (charge_power_params charge_power))) (\<lambda>_.
                   executor_job api
                     (Write_parameter (device_id c) dt ''charge_stop_soc''
                        (charge_soc_params charge_stop_soc)))))
               | _ \<Rightarrow>
                   lift (Inl (HomeAssistantError (charge_missing_msg (charge_missing_tlx c f)))))
            else
              (case (start_entity f, end_entity f, enabled_entity f,
                     power_entity f, stop_soc_entity f) of
                 (Some start_state, Some end_state, Some enabled_state,
                  Some power_state, Some stop_soc_state) \<Rightarrow>
                   bind (lift (fromisoformat py start_state)) (\<lambda>start_time.
                   bind (lift (fromisoformat py end_state)) (\<lambda>end_time.
                   bind (lift (int_float py power_state)) (\<lambda>charge_power.
                   bind (lift (int_float py stop_soc_state)) (\<lambda>charge_stop_soc.
                   bind (lift (mains_enabled c)) (\<lambda>mains.
                   executor_job api
                     (Write_time_segment (device_id c) dt ''mix_ac_charge_time_period''
                        (ChargeTime
                           \<lparr>mc_charge_power = charge_power,
                            mc_charge_stop_soc = charge_stop_soc,
                            mc_mains_enabled = mains,
                            mc_start_hour = hour start_time,
                            mc_start_minute = minute start_time,
                            mc_end_hour = hour end_time,
                            mc_end_minute = minute end_time,
                            mc_enabled = (enabled_state = ''on''),
                            mc_segment_id = 1\<rparr>)))))))
               | _ \<Rightarrow>
                   lift (Inl (HomeAssistantError (charge_missing_msg (charge_missing_mix c f))))))
         else lift (Inr ()))"

subsection \<open>\<open>_apply_discharge_settings\<close>\<close>

definition discharge_missing_tlx :: "coordinator \<Rightarrow> siblings \<Rightarrow> string list" where
  "discharge_missing_tlx c f =
     (if power_entity f = None then [''number.'' @ device_id c @ ''_discharge_power''] else [])
     @ (if stop_soc_entity f = None
          then [''number.'' @ device_id c @ ''_discharge_stop_soc''] else [])"

definition discharge_missing_mix :: "coordinator \<Rightarrow> siblings \<Rightarrow> string list" where
  "discharge_missing_mix c f =
     (if start_entity f = None then [''time.'' @ device_id c @ ''_discharge_start_time''] else [])
     @ (if end_entity f = None then [''time.'' @ device_id c @ ''_discharge_end_time''] else [])
     @ (if enabled_entity f = None
          then [''switch.'' @ device_id c @ ''_discharge_period_1_enabled''] else [])
     @ (if power_entity f = None then [''number.'' @ device_id c @ ''_discharge_power''] else [])
     @ (if stop_soc_entity f = None
          then [''number.'' @ device_id c @ ''_discharge_stop_soc''] else [])"

definition discharge_missing_msg :: "string list \<Rightarrow> string" where
  "discharge_missing_msg missing =
     ''Could not find all discharge setting entities. Missing: '' @ join '', '' missing"

definition discharge_power_params :: "int \<Rightarrow> ChargeDischargeParams" where
  "discharge_power_params discharge_power =
     \<lparr>cd_charge_power = 0, cd_charge_stop_soc = 0, cd_discharge_power = discharge_power,
      cd_discharge_stop_soc = 0, cd_ac_charge_enabled = False\<rparr>"

definition discharge_soc_params :: "int \<Rightarrow> ChargeDischargeParams" where
  "discharge_soc_params discharge_stop_soc =
     \<lparr>cd_charge_power = 0, cd_charge_stop_soc = 0, cd_discharge_power = 0,
      cd_discharge_stop_soc = discharge_stop_soc, cd_ac_charge_enabled = False\<rparr>"

definition apply_discharge_settings :: "python \<Rightarrow> vendor \<Rightarrow> hass \<Rightarrow> coordinator \<Rightarrow> unit io" where
  "apply_discharge_settings py api h c =
     (let f = discharge_siblings h c;
          dt = vendor_device_type c
      in if api_is_OpenApiV1 c then
           (if device_type c = ''tlx'' then
              (case (power_entity f, stop_soc_entity f) of
                 (Some power_state, Some stop_soc_state) \<Rightarrow>
                   bind (lift (int_float py power_state)) (\<lambda>discharge_power.
                   bind (lift (int_float py stop_soc_state)) (\<lambda>discharge_stop_soc.
                   bind (executor_job api
                           (Write_parameter (device_id c) dt ''discharge_power''
                              (discharge_power_params discharge_power))) (\<lambda>_.
                   executor_job api
                     (Write_parameter (device_id c) dt ''discharge_stop_soc''
                        (discharge_soc_params discharge_stop_soc)))))
               | _ \<Rightarrow>
                   lift (Inl (HomeAssistantError
                                (discharge_missing_msg (discharge_missing_tlx c f)))))
            else
              (case (start_entity f, end_entity f, enabled_entity f,
                     power_entity f, stop_soc_entity f) of
                 (Some start_state, Some end_state, Some enabled_state,
                  Some power_state, Some stop_soc_state) \<Rightarrow>
                   bind (lift (fromisoformat py start_state)) (\<lambda>start_time.
                   bind (lift (fromisoformat py end_state)) (\<lambda>end_time.
                   bind (lift (int_float py power_state)) (\<lambda>discharge_power.
                   bind (lift (int_float py stop_soc_state)) (\<lambda>discharge_stop_soc.
                   executor_job api
                     (Write_time_segment (device_id c) dt ''mix_ac_discharge_time_period''
                        (DischargeTime
                           \<lparr>md_discharge_power = discharge_power,
                            md_discharge_stop_soc = discharge_stop_soc,
                            md_start_hour = hour start_time,
                            md_start_minute = minute start_time,
                            md_end_hour = hour end_time,
                            md_end_minute = minute end_time,
                            md_enabled = (enabled_state = ''on''),
                            md_segment_id = 1\<rparr>))))))
               | _ \<Rightarrow>
                   lift (Inl (HomeAssistantError
                                (discharge_missing_msg (discharge_missing_mix c f))))))
         else lift (Inr ()))"

subsection \<open>\<open>async_press\<close>\<close>

text \<open>
  The \<open>try\<close> covers the apply call and the refresh request; its handler catches
  \<open>GrowattV1ApiError\<close> only and raises \<open>HomeAssistantError\<close> with the formatted message.
  Logging is left out.
\<close>

definition press_error_msg :: "string \<Rightarrow> string \<Rightarrow> string" where
  "press_error_msg setting_type err = ''Error applying '' @ setting_type @ '' settings: '' @ err"

definition async_press :: "python \<Rightarrow> vendor \<Rightarrow> hass \<Rightarrow> coordinator \<Rightarrow> string \<Rightarrow> unit io" where
  "async_press py api h c setting_type =
     (case bind (if setting_type = ''charge'' then apply_charge_settings py api h c
                 else apply_discharge_settings py api h c)
                (\<lambda>_. (Inr (), [Async_request_refresh])) of
        (Inl (GrowattV1ApiError err), tr) \<Rightarrow>
          (Inl (HomeAssistantError (press_error_msg setting_type err)), tr)
      | (r, tr) \<Rightarrow> (r, tr))"

subsection \<open>\<open>async_setup_entry\<close>\<close>

text \<open>
  A \<open>GrowattApplySettingsButton\<close> holds its coordinator and its setting type.
  \<open>async_setup_entry\<close> of button.py, on \<open>runtime_data.devices.values()\<close>: the list of
  buttons passed to \<open>async_add_entities\<close>. These are the only buttons that are created.
\<close>

record GrowattApplySettingsButton =
  button_coordinator :: coordinator
  button_setting_type :: string

fun button_async_setup_entry :: "coordinator list \<Rightarrow> GrowattApplySettingsButton list" where
  "button_async_setup_entry [] = []"
| "button_async_setup_entry (device_coordinator # devices) =
     (if device_type device_coordinator \<in> set [''mix'', ''tlx'']
         \<and> api_version device_coordinator = ''v1''
      then [\<lparr>button_coordinator = device_coordinator, button_setting_type = ''charge''\<rparr>,
            \<lparr>button_coordinator = device_coordinator, button_setting_type = ''discharge''\<rparr>]
      else [])
     @ button_async_setup_entry devices"

section \<open>Notions used to state the properties\<close>

text \<open>A vendor call that returned, and a vendor call that raised a given exception.\<close>

definition vendor_succeeded :: "event \<Rightarrow> bool" where
  "vendor_succeeded ev = (case ev of Vendor a None \<Rightarrow> True | _ \<Rightarrow> False)"

definition vendor_failed_with :: "error \<Rightarrow> event \<Rightarrow> bool" where
  "vendor_failed_with err ev = (case ev of Vendor a (Some err') \<Rightarrow> err' = err | _ \<Rightarrow> False)"

text \<open>
  The shape of every trace the apply functions produce: vendor calls that returned,
  followed, when the result is an exception raised by a vendor call, by that one call.
\<close>

definition traced :: "'a io \<Rightarrow> bool" where
  "traced m =
     (case m of
        (Inr x, tr) \<Rightarrow> list_all vendor_succeeded tr
      | (Inl err, tr) \<Rightarrow>
          list_all vendor_succeeded tr
          \<or> (tr \<noteq> [] \<and> list_all vendor_succeeded (butlast tr) \<and> vendor_failed_with err (last tr)))"

text \<open>
  The entities tested by \<open>all([...])\<close> in each branch, each with the identifier the
  branch appends to \<open>missing\<close> for it; the identifiers of the absent ones; the message.
\<close>

definition charge_required :: "coordinator \<Rightarrow> siblings \<Rightarrow> (string option \<times> string) list" where
  "charge_required c f =
     (if device_type c = ''tlx'' then
        [(power_entity f, ''number.'' @ device_id c @ ''_charge_power''),
         (stop_soc_entity f, ''number.'' @ device_id c @ ''_charge_stop_soc'')]
      else
        [(start_entity f, ''time.'' @ device_id c @ ''_charge_start_time''),
         (end_entity f, ''time.'' @ device_id c @ ''_charge_end_time''),
         (enabled_entity f, ''switch.'' @ device_id c @ ''_charge_period_1_enabled''),
         (power_entity f, ''number.'' @ device_id c @ ''_charge_power''),
         (stop_soc_entity f, ''number.'' @ device_id c @ ''_charge_stop_soc'')])"

definition discharge_required :: "coordinator \<Rightarrow> siblings \<Rightarrow> (string option \<times> string) list" where
  "discharge_required c f =
     (if device_type c = ''tlx'' then
        [(power_entity f, ''number.'' @ device_id c @ ''_discharge_power''),
         (stop_soc_entity f, ''number.'' @ device_id c @ ''_discharge_stop_soc'')]
      else
        [(start_entity f, ''time.'' @ device_id c @ ''_discharge_start_time''),
         (end_entity f, ''time.'' @ device_id c @ ''_discharge_end_time''),
         (enabled_entity f, ''switch.'' @ device_id c @ ''_discharge_period_1_enabled''),
         (power_entity f, ''number.'' @ device_id c @ ''_discharge_power''),
         (stop_soc_entity f, ''number.'' @ device_id c @ ''_discharge_stop_soc'')])"

definition required_entities :: "string \<Rightarrow> hass \<Rightarrow> coordinator \<Rightarrow> (string option \<times> string) list" where
  "required_entities setting_type h c =
     (if setting_type = ''charge'' then charge_required c (charge_siblings h c)
      else discharge_required c (discharge_siblings h c))"

definition absent_identifiers :: "string \<Rightarrow> hass \<Rightarrow> coordinator \<Rightarrow> string list" where
  "absent_identifiers setting_type h c =
     map snd (filter (\<lambda>p. fst p = None) (required_entities setting_type h c))"

definition missing_msg :: "string \<Rightarrow> string list \<Rightarrow> string" where
  "missing_msg setting_type missing =
     (if setting_type = ''charge'' then charge_missing_msg missing
      else discharge_missing_msg missing)"

text \<open>The \<open>except\<close> clause of \<open>async_press\<close> as a function on the exception raised.\<close>

definition reraised :: "string \<Rightarrow> error \<Rightarrow> error" where
  "reraised setting_type err =
     (case err of
        GrowattV1ApiError m \<Rightarrow> HomeAssistantError (press_error_msg setting_type m)
      | _ \<Rightarrow> err)"

section \<open>Sample values\<close>

text \<open>
  A runtime given by the values of the two parsers at the state strings used below (other
  strings are not used), a registry with the five charge entities of device \<open>D1\<close>, one
  where the stop SOC entity has no state, two coordinators and two vendors.
\<close>

definition sample_python :: python where
  "sample_python =
     \<lparr>int_float = (\<lambda>s. if s = ''50'' then Inr 50 else if s = ''80'' then Inr 80
                       else Inl ValueError),
      fromisoformat =
        (\<lambda>s. if s = ''01:30:00'' then Inr \<lparr>hour = 1, minute = 30, second = 0, microsecond = 0\<rparr>
             else if s = ''05:00:00'' then Inr \<lparr>hour = 5, minute = 0, second = 0, microsecond = 0\<rparr>
             else Inl ValueError)\<rparr>"

definition sample_hass :: hass where
  "sample_hass =
     \<lparr>entities =
        [\<lparr>platform = ''growatt_server'', unique_id = ''D1_charge_power'',
          entity_id = ''number.charge_power''\<rparr>,
         \<lparr>platform = ''growatt_server'', unique_id = ''D1_charge_stop_soc'',
          entity_id = ''number.charge_stop_soc''\<rparr>,
         \<lparr>platform = ''growatt_server'', unique_id = ''D1_charge_start_time_1'',
          entity_id = ''time.charge_start''\<rparr>,
         \<lparr>platform = ''growatt_server'', unique_id = ''D1_charge_end_time_1'',
          entity_id = ''time.charge_end''\<rparr>,
         \<lparr>platform = ''growatt_server'', unique_id = ''D1_charge_period_1_enabled'',
          entity_id = ''switch.charge_enabled''\<rparr>],
      states =
        [''number.charge_power'' \<mapsto> ''50'', ''number.charge_stop_soc'' \<mapsto> ''80'',
         ''time.charge_start'' \<mapsto> ''01:30:00'', ''time.charge_end'' \<mapsto> ''05:00:00'',
         ''switch.charge_enabled'' \<mapsto> ''on'']\<rparr>"

definition sample_hass_no_soc :: hass where
  "sample_hass_no_soc =
     \<lparr>entities =
        [\<lparr>platform = ''growatt_server'', unique_id = ''D1_charge_power'',
          entity_id = ''number.charge_power''\<rparr>,
         \<lparr>platform = ''growatt_server'', unique_id = ''D1_charge_stop_soc'',
          entity_id = ''number.charge_stop_soc''\<rparr>],
      states = [''number.charge_power'' \<mapsto> ''50'']\<rparr>"

definition tlx_v1 :: coordinator where
  "tlx_v1 = \<lparr>device_id = ''D1'', device_type = ''tlx'', api_version = ''v1'', api_is_OpenApiV1 = True,
             data = Map.empty\<rparr>"

definition mix_v1 :: coordinator where
  "mix_v1 = \<lparr>device_id = ''D1'', device_type = ''mix'', api_version = ''v1'', api_is_OpenApiV1 = True,
             data = [''acChargeEnable'' \<mapsto> VStr ''1'']\<rparr>"

definition accepts_all :: vendor where
  "accepts_all a = None"

definition rejects_stop_soc :: vendor where
  "rejects_stop_soc a =
     (case a of
        Write_parameter dev dt name params \<Rightarrow>
          if name = ''charge_stop_soc'' then Some (GrowattV1ApiError ''error_code 10012'') else None
      | Write_time_segment dev dt name params \<Rightarrow> None)"

definition tlx_demo :: coordinator where
  "tlx_demo = \<lparr>device_id = ''D1'', device_type = ''tlx'', api_version = ''v1'', api_is_OpenApiV1 = True,
               data = [''timeSegmentStart1'' \<mapsto> VStr ''02:00'']\<rparr>"

section \<open>Properties of time.py and number.py\<close>

declare dec_digits.simps [simp del]

lemma of_char_digit_char: "n < 10 \<Longrightarrow> (of_char (digit_char n) :: nat) = 48 + n"
  by (simp add: digit_char_def)

lemma digit_char_props:
  assumes "n < 10"
  shows "is_digit (digit_char n)" "digit_val (digit_char n) = n" "\<not> int_space (digit_char n)"
    "digit_char n \<noteq> CHR ''-''" "digit_char n \<noteq> CHR ''+''" "digit_char n \<noteq> CHR '':''"
    "digit_char n \<noteq> CHR ''_''"
proof -
  note oc = of_char_digit_char [OF assms]
  show "is_digit (digit_char n)" using assms by (simp add: is_digit_def oc)
  show "digit_val (digit_char n) = n" by (simp add: digit_val_def oc)
  show "\<not> int_space (digit_char n)" using assms by (simp add: int_space_def oc)
  have ne: "\<And>c. (of_char c :: nat) < 48 \<or> 57 < (of_char c :: nat) \<Longrightarrow> digit_char n \<noteq> c"
    using oc assms by auto
  show "digit_char n \<noteq> CHR ''-''" by (rule ne) simp
  show "digit_char n \<noteq> CHR ''+''" by (rule ne) simp
  show "digit_char n \<noteq> CHR '':''" by (rule ne) simp
  show "digit_char n \<noteq> CHR ''_''" by (rule ne) simp
qed

lemma digit_char_0: "digit_char 0 = CHR ''0''"
proof -
  have "(of_char (digit_char 0) :: nat) = of_char CHR ''0''"
    by (simp add: digit_char_def)
  then show ?thesis by (simp only: of_char_eq_iff)
qed

lemma fmt_02d_two: "n < 100 \<Longrightarrow> fmt_02d n = [digit_char (n div 10), digit_char (n mod 10)]"
  by (simp add: fmt_02d_def dec_digits.simps [of n] dec_digits.simps [of "n div 10"] Let_def
      digit_char_0)

lemma py_int_two_digits:
  assumes "a < 10" "b < 10"
  shows "py_int [digit_char a, digit_char b] = Some (int (10 * a + b))"
  using digit_char_props [OF assms(1)] digit_char_props [OF assms(2)]
  by (simp add: py_int_def strip_def int_digits_def int_max_str_digits_def Let_def)

lemma split_colon_hhmm:
  assumes "a \<noteq> CHR '':''" "b \<noteq> CHR '':''" "c \<noteq> CHR '':''" "d \<noteq> CHR '':''"
  shows "split_colon ([a, b] @ CHR '':'' # [c, d]) = [[a, b], [c, d]]"
  using assms by simp

lemma parse_time_str_fmt:
  assumes "h < 24" "m < 60"
  shows "parse_time_str (fmt_02d h @ '':'' @ fmt_02d m)
         = Inr \<lparr>hour = h, minute = m, second = 0, microsecond = 0\<rparr>"
proof -
  have h: "h div 10 < 10" "h mod 10 < 10" "h < 100" using assms by simp_all
  have m: "m div 10 < 10" "m mod 10 < 10" "m < 100" using assms by simp_all
  have sp: "split_colon (fmt_02d h @ CHR '':'' # fmt_02d m) = [fmt_02d h, fmt_02d m]"
    unfolding fmt_02d_two [OF h(3)] fmt_02d_two [OF m(3)]
    by (rule split_colon_hhmm) (simp_all add: digit_char_props h m)
  have ih: "py_int (fmt_02d h) = Some (int h)"
    unfolding fmt_02d_two [OF h(3)] using py_int_two_digits [OF h(1) h(2)] by simp
  have im: "py_int (fmt_02d m) = Some (int m)"
    unfolding fmt_02d_two [OF m(3)] using py_int_two_digits [OF m(1) m(2)] by simp
  have tn: "time_new (int h) (int m) = Inr \<lparr>hour = h, minute = m, second = 0, microsecond = 0\<rparr>"
    using assms by (simp add: time_new_def c_int_ok_def)
  show ?thesis
    by (simp add: parse_time_str_def sp index_def ih im tn Let_def)
qed

lemma format_templates:
  "format_segment_id ''timeSegmentStart{segment_id}'' v = ''timeSegmentStart'' @ v"
  "format_segment_id ''timeSegmentStop{segment_id}'' v = ''timeSegmentStop'' @ v"
  "format_segment_id ''timeSegmentEnabled{segment_id}'' v = ''timeSegmentEnabled'' @ v"
  "format_segment_id ''forcedChargeTimeStart{segment_id}'' v = ''forcedChargeTimeStart'' @ v"
  "format_segment_id ''forcedChargeTimeStop{segment_id}'' v = ''forcedChargeTimeStop'' @ v"
  "format_segment_id ''forcedChargeStopSwitch{segment_id}'' v = ''forcedChargeStopSwitch'' @ v"
  "format_segment_id ''forcedDischargeTimeStart{segment_id}'' v = ''forcedDischargeTimeStart'' @ v"
  "format_segment_id ''forcedDischargeTimeStop{segment_id}'' v = ''forcedDischargeTimeStop'' @ v"
  "format_segment_id ''forcedDischargeStopSwitch{segment_id}'' v = ''forcedDischargeStopSwitch'' @ v"
  by simp_all


lemma get_field_name_eq:
  "get_field_name e c ft =
     (if ft = ''start_time'' then
        Inr ((if device_type c = ''tlx'' then ''timeSegmentStart''
              else if is_charge_class (time_class e) then ''forcedChargeTimeStart''
              else ''forcedDischargeTimeStart'') @ str_of_int (segment_id e))
      else if ft = ''stop_time'' then
        Inr ((if device_type c = ''tlx'' then ''timeSegmentStop''
              else if is_charge_class (time_class e) then ''forcedChargeTimeStop''
              else ''forcedDischargeTimeStop'') @ str_of_int (segment_id e))
      else if ft = ''enabled'' then
        Inr ((if device_type c = ''tlx'' then ''timeSegmentEnabled''
              else if is_charge_class (time_class e) then ''forcedChargeStopSwitch''
              else ''forcedDischargeStopSwitch'') @ str_of_int (segment_id e))
      else Inl KeyError)"
  by (simp add: get_field_name_def MIN_TLX_FIELD_TEMPLATES_def
      SPH_MIX_CHARGE_FIELD_TEMPLATES_def SPH_MIX_DISCHARGE_FIELD_TEMPLATES_def
      format_templates Let_def del: format_segment_id.simps)

lemma class_field_type_cases:
  "class_field_type k = ''start_time'' \<or> class_field_type k = ''stop_time''"
  by (cases k) (simp_all add: class_field_type_def)

lemma get_field_name_class:
  "\<exists>field. get_field_name e c (class_field_type (time_class e)) = Inr field"
  using class_field_type_cases [of "time_class e"]
  by (auto simp add: get_field_name_eq)

lemma get_field_name_data_update:
  "get_field_name e (c\<lparr>data := d\<rparr>) ft = get_field_name e c ft"
  by (simp add: get_field_name_def)

lemma str_of_int_1: "str_of_int 1 = ''1''"
  by code_simp

text \<open>
  C7. The field name of a time entity depends on the device family. On a \<open>tlx\<close> device
  every class takes the numbered segment templates; on any other device the two charge
  classes take the charge templates and the two discharge classes the discharge
  templates. The segment number is appended in decimal, and a field type that is none of
  the three keys raises \<open>KeyError\<close>. On a \<open>tlx\<close> device the start-time field of segment 1
  is \<open>timeSegmentStart1\<close>.
\<close>

theorem field_name_by_family:
  "get_field_name e c ft =
     (if ft = ''start_time'' then
        Inr ((if device_type c = ''tlx'' then ''timeSegmentStart''
              else if is_charge_class (time_class e) then ''forcedChargeTimeStart''
              else ''forcedDischargeTimeStart'') @ str_of_int (segment_id e))
      else if ft = ''stop_time'' then
        Inr ((if device_type c = ''tlx'' then ''timeSegmentStop''
              else if is_charge_class (time_class e) then ''forcedChargeTimeStop''
              else ''forcedDischargeTimeStop'') @ str_of_int (segment_id e))
      else if ft = ''enabled'' then
        Inr ((if device_type c = ''tlx'' then ''timeSegmentEnabled''
              else if is_charge_class (time_class e) then ''forcedChargeStopSwitch''
              else ''forcedDischargeStopSwitch'') @ str_of_int (segment_id e))
      else Inl KeyError)
   \<and> get_field_name \<lparr>time_class = k, segment_id = 1\<rparr> (c\<lparr>device_type := ''tlx''\<rparr>) ''start_time''
       = Inr ''timeSegmentStart1''"
  by (simp add: get_field_name_eq [of e c ft]
      get_field_name_eq [of "\<lparr>time_class = k, segment_id = 1\<rparr>" "c\<lparr>device_type := ''tlx''\<rparr>"]
      str_of_int_1)

theorem field_name_by_family_witness:
  "get_field_name \<lparr>time_class = GrowattDischargeEndTimeEntity, segment_id = 1\<rparr>
     \<lparr>device_id = ''D1'', device_type = ''mix'', api_version = ''v1'', api_is_OpenApiV1 = True, data = Map.empty\<rparr>
     ''stop_time'' = Inr ''forcedDischargeTimeStop1''
   \<and> get_field_name \<lparr>time_class = GrowattDischargeEndTimeEntity, segment_id = 1\<rparr>
     \<lparr>device_id = ''D1'', device_type = ''tlx'', api_version = ''v1'', api_is_OpenApiV1 = True, data = Map.empty\<rparr>
     ''start_time'' = Inr ''timeSegmentStart1''"
  using field_name_by_family [of "\<lparr>time_class = GrowattDischargeEndTimeEntity, segment_id = 1\<rparr>"
      "\<lparr>device_id = ''D1'', device_type = ''mix'', api_version = ''v1'', api_is_OpenApiV1 = True, data = Map.empty\<rparr>"
      "''stop_time''" GrowattDischargeEndTimeEntity]
  by (simp add: is_charge_class_def str_of_int_1)

lemma set_then_read:
  assumes "valid_time t"
    and "get_field_name e1 c (class_field_type (time_class e1))
         = get_field_name e2 c (class_field_type (time_class e2))"
  shows "\<exists>c' evs. async_set_value e1 c t = Inr (c', evs)
           \<and> native_value e2 c' = Inr \<lparr>hour = hour t, minute = minute t, second = 0, microsecond = 0\<rparr>"
proof -
  obtain field where f1: "get_field_name e1 c (class_field_type (time_class e1)) = Inr field"
    using get_field_name_class by blast
  have f2: "get_field_name e2 c (class_field_type (time_class e2)) = Inr field"
    using f1 assms(2) by simp
  let ?s = "fmt_02d (hour t) @ '':'' @ fmt_02d (minute t)"
  let ?c = "c\<lparr>data := (data c)(field \<mapsto> VStr ?s)\<rparr>"
  have set: "async_set_value e1 c t = Inr (?c, [Async_write_ha_state])"
    by (simp add: async_set_value_def f1 Let_def)
  have p: "parse_time_str ?s = Inr \<lparr>hour = hour t, minute = minute t, second = 0, microsecond = 0\<rparr>"
    using assms(1) by (intro parse_time_str_fmt) (simp_all add: valid_time_def)
  have "native_value e2 ?c = Inr \<lparr>hour = hour t, minute = minute t, second = 0, microsecond = 0\<rparr>"
    unfolding native_value_def get_field_name_data_update f2 using p by simp
  with set show ?thesis by blast
qed

text \<open>
  C10. Setting a time entity to a valid time \<open>t\<close> and reading \<open>native_value\<close> from the
  resulting coordinator gives \<open>time(t.hour, t.minute)\<close>: seconds and microseconds are
  dropped. This holds for each of the four classes, on any device family and segment.
\<close>

theorem time_round_trip:
  assumes "valid_time t"
  shows "\<exists>c' evs. async_set_value e c t = Inr (c', evs)
           \<and> native_value e c' = Inr \<lparr>hour = hour t, minute = minute t, second = 0, microsecond = 0\<rparr>"
  using assms by (rule set_then_read) simp


theorem time_round_trip_witness:
  "valid_time \<lparr>hour = 7, minute = 5, second = 30, microsecond = 250\<rparr>
   \<and> (\<exists>c' evs.
         async_set_value \<lparr>time_class = GrowattChargeEndTimeEntity, segment_id = 1\<rparr>
           \<lparr>device_id = ''D1'', device_type = ''mix'', api_version = ''v1'', api_is_OpenApiV1 = True, data = Map.empty\<rparr>
           \<lparr>hour = 7, minute = 5, second = 30, microsecond = 250\<rparr> = Inr (c', evs)
         \<and> native_value \<lparr>time_class = GrowattChargeEndTimeEntity, segment_id = 1\<rparr> c'
             = Inr \<lparr>hour = 7, minute = 5, second = 0, microsecond = 0\<rparr>)"
proof -
  have v: "valid_time \<lparr>hour = 7, minute = 5, second = 30, microsecond = 250\<rparr>"
    by (simp add: valid_time_def)
  show ?thesis
    using v time_round_trip [OF v, of "\<lparr>time_class = GrowattChargeEndTimeEntity, segment_id = 1\<rparr>"
        "\<lparr>device_id = ''D1'', device_type = ''mix'', api_version = ''v1'', api_is_OpenApiV1 = True, data = Map.empty\<rparr>"]
    by simp
qed

text \<open>
  C8. On a \<open>tlx\<close> device two time entities with the same segment number resolve every
  field type to the same name, whatever their classes, namely \<open>timeSegmentStart\<close>,
  \<open>timeSegmentStop\<close> and \<open>timeSegmentEnabled\<close> followed by the number. So a time set
  through the charge start entity is what the discharge start entity reads, and the other
  way round.
\<close>

theorem tlx_charge_discharge_share_fields:
  assumes "device_type c = ''tlx''" and "valid_time t"
  shows "get_field_name \<lparr>time_class = k1, segment_id = n\<rparr> c ft
           = get_field_name \<lparr>time_class = k2, segment_id = n\<rparr> c ft
    \<and> get_field_name \<lparr>time_class = k1, segment_id = n\<rparr> c ''start_time''
           = Inr (''timeSegmentStart'' @ str_of_int n)
    \<and> get_field_name \<lparr>time_class = k1, segment_id = n\<rparr> c ''stop_time''
           = Inr (''timeSegmentStop'' @ str_of_int n)
    \<and> get_field_name \<lparr>time_class = k1, segment_id = n\<rparr> c ''enabled''
           = Inr (''timeSegmentEnabled'' @ str_of_int n)
    \<and> (\<exists>c' evs.
          async_set_value \<lparr>time_class = GrowattChargeStartTimeEntity, segment_id = n\<rparr> c t
            = Inr (c', evs)
          \<and> native_value \<lparr>time_class = GrowattDischargeStartTimeEntity, segment_id = n\<rparr> c'
              = Inr \<lparr>hour = hour t, minute = minute t, second = 0, microsecond = 0\<rparr>)
    \<and> (\<exists>c' evs.
          async_set_value \<lparr>time_class = GrowattDischargeStartTimeEntity, segment_id = n\<rparr> c t
            = Inr (c', evs)
          \<and> native_value \<lparr>time_class = GrowattChargeStartTimeEntity, segment_id = n\<rparr> c'
              = Inr \<lparr>hour = hour t, minute = minute t, second = 0, microsecond = 0\<rparr>)"
proof -
  have names: "\<And>k k' ft'. get_field_name \<lparr>time_class = k, segment_id = n\<rparr> c ft'
                 = get_field_name \<lparr>time_class = k', segment_id = n\<rparr> c ft'"
    using assms(1) by (simp add: get_field_name_eq)
  have a: "\<exists>c' evs.
          async_set_value \<lparr>time_class = GrowattChargeStartTimeEntity, segment_id = n\<rparr> c t
            = Inr (c', evs)
          \<and> native_value \<lparr>time_class = GrowattDischargeStartTimeEntity, segment_id = n\<rparr> c'
              = Inr \<lparr>hour = hour t, minute = minute t, second = 0, microsecond = 0\<rparr>"
    using assms(2) by (rule set_then_read) (simp add: class_field_type_def names)
  have b: "\<exists>c' evs.
          async_set_value \<lparr>time_class = GrowattDischargeStartTimeEntity, segment_id = n\<rparr> c t
            = Inr (c', evs)
          \<and> native_value \<lparr>time_class = GrowattChargeStartTimeEntity, segment_id = n\<rparr> c'
              = Inr \<lparr>hour = hour t, minute = minute t, second = 0, microsecond = 0\<rparr>"
    using assms(2) by (rule set_then_read) (simp add: class_field_type_def names)
  have c: "get_field_name \<lparr>time_class = k1, segment_id = n\<rparr> c ''start_time''
           = Inr (''timeSegmentStart'' @ str_of_int n)"
     "get_field_name \<lparr>time_class = k1, segment_id = n\<rparr> c ''stop_time''
           = Inr (''timeSegmentStop'' @ str_of_int n)"
     "get_field_name \<lparr>time_class = k1, segment_id = n\<rparr> c ''enabled''
           = Inr (''timeSegmentEnabled'' @ str_of_int n)"
    using assms(1) by (simp_all add: get_field_name_eq)
  from names [of k1 ft k2] a b c show ?thesis by blast
qed

theorem tlx_charge_discharge_share_fields_witness:
  "device_type tlx_demo = ''tlx''
   \<and> valid_time \<lparr>hour = 23, minute = 59, second = 0, microsecond = 0\<rparr>
   \<and> native_value \<lparr>time_class = GrowattDischargeStartTimeEntity, segment_id = 1\<rparr> tlx_demo
       = Inr \<lparr>hour = 2, minute = 0, second = 0, microsecond = 0\<rparr>
   \<and> (\<exists>c' evs.
          async_set_value \<lparr>time_class = GrowattChargeStartTimeEntity, segment_id = 1\<rparr> tlx_demo
            \<lparr>hour = 23, minute = 59, second = 0, microsecond = 0\<rparr> = Inr (c', evs)
          \<and> native_value \<lparr>time_class = GrowattDischargeStartTimeEntity, segment_id = 1\<rparr> c'
              = Inr \<lparr>hour = 23, minute = 59, second = 0, microsecond = 0\<rparr>)"
proof -
  have d: "device_type tlx_demo = ''tlx''" by (simp add: tlx_demo_def)
  have v: "valid_time \<lparr>hour = 23, minute = 59, second = 0, microsecond = 0\<rparr>"
    by (simp add: valid_time_def)
  have r: "native_value \<lparr>time_class = GrowattDischargeStartTimeEntity, segment_id = 1\<rparr> tlx_demo
       = Inr \<lparr>hour = 2, minute = 0, second = 0, microsecond = 0\<rparr>"
    by code_simp
  show ?thesis
    using d v r tlx_charge_discharge_share_fields [OF d v, of GrowattChargeStartTimeEntity 1
        "''start_time''" GrowattDischargeStartTimeEntity]
    by simp
qed

text \<open>
  C6. A local edit stores only the coerced value under the entity's own key: the number
  entity stores \<open>int(value)\<close> (truncation towards zero) for every finite value, with no
  comparison against the minimum or maximum of its description; a time entity stores the
  five characters \<open>HH:MM\<close>. The rest of the coordinator is the same, and the only call
  made is \<open>async_write_ha_state\<close>: no vendor call.
\<close>

theorem local_edit_writes_coerced_value:
  assumes "valid_time t"
  shows "async_set_native_value d c (Finite r)
           = Inr (c\<lparr>data := (data c)(api_key d \<mapsto> VInt (if 0 \<le> r then \<lfloor>r\<rfloor> else \<lceil>r\<rceil>))\<rparr>,
                  [Async_write_ha_state])
    \<and> (\<exists>field. get_field_name e c (class_field_type (time_class e)) = Inr field
          \<and> async_set_value e c t
              = Inr (c\<lparr>data := (data c)(field \<mapsto>
                          VStr [digit_char (hour t div 10), digit_char (hour t mod 10), CHR '':'',
                                digit_char (minute t div 10), digit_char (minute t mod 10)])\<rparr>,
                     [Async_write_ha_state]))"
proof -
  obtain field where f: "get_field_name e c (class_field_type (time_class e)) = Inr field"
    using get_field_name_class by blast
  have h: "hour t < 100" and m: "minute t < 100"
    using assms by (simp_all add: valid_time_def)
  have "async_set_value e c t
              = Inr (c\<lparr>data := (data c)(field \<mapsto>
                          VStr [digit_char (hour t div 10), digit_char (hour t mod 10), CHR '':'',
                                digit_char (minute t div 10), digit_char (minute t mod 10)])\<rparr>,
                     [Async_write_ha_state])"
    by (simp add: async_set_value_def f Let_def fmt_02d_two [OF h] fmt_02d_two [OF m])
  with f show ?thesis
    by (simp add: async_set_native_value_def int_of_float_def)
qed

theorem local_edit_writes_coerced_value_witness:
  "valid_time \<lparr>hour = 6, minute = 30, second = 15, microsecond = 0\<rparr>
   \<and> async_set_native_value (percent_setting ''charge_power'' ''chargePowerCommand'')
        \<lparr>device_id = ''D1'', device_type = ''mix'', api_version = ''v1'', api_is_OpenApiV1 = True, data = Map.empty\<rparr>
        (Finite (301 / 2))
      = Inr (\<lparr>device_id = ''D1'', device_type = ''mix'', api_version = ''v1'', api_is_OpenApiV1 = True,
              data = [''chargePowerCommand'' \<mapsto> VInt 150]\<rparr>, [Async_write_ha_state])
   \<and> async_set_value \<lparr>time_class = GrowattChargeStartTimeEntity, segment_id = 1\<rparr>
        \<lparr>device_id = ''D1'', device_type = ''mix'', api_version = ''v1'', api_is_OpenApiV1 = True, data = Map.empty\<rparr>
        \<lparr>hour = 6, minute = 30, second = 15, microsecond = 0\<rparr>
      = Inr (\<lparr>device_id = ''D1'', device_type = ''mix'', api_version = ''v1'', api_is_OpenApiV1 = True,
              data = [''forcedChargeTimeStart1'' \<mapsto> VStr ''06:30'']\<rparr>, [Async_write_ha_state])"
proof -
  have v: "valid_time \<lparr>hour = 6, minute = 30, second = 15, microsecond = 0\<rparr>"
    by (simp add: valid_time_def)
  have g: "get_field_name \<lparr>time_class = GrowattChargeStartTimeEntity, segment_id = 1\<rparr>
        \<lparr>device_id = ''D1'', device_type = ''mix'', api_version = ''v1'', api_is_OpenApiV1 = True, data = Map.empty\<rparr>
        (class_field_type GrowattChargeStartTimeEntity) = Inr ''forcedChargeTimeStart1''"
    by (simp add: get_field_name_eq class_field_type_def is_charge_class_def str_of_int_1)
  have dc: "[digit_char 0, digit_char 6, CHR '':'', digit_char 3, digit_char 0] = ''06:30''"
    by code_simp
  have fl: "\<lfloor>301 / 2 :: rat\<rfloor> = 150"
    by (simp add: floor_eq_iff)
  show ?thesis
    using v local_edit_writes_coerced_value [OF v,
        of "percent_setting ''charge_power'' ''chargePowerCommand''"
        "\<lparr>device_id = ''D1'', device_type = ''mix'', api_version = ''v1'', api_is_OpenApiV1 = True, data = Map.empty\<rparr>"
        "301 / 2" "\<lparr>time_class = GrowattChargeStartTimeEntity, segment_id = 1\<rparr>"]
    by (simp add: g dc fl percent_setting_def)
qed

lemma parse_time_str_errors:
  "parse_time_str s = Inl err \<Longrightarrow> err = ValueError \<or> err = IndexError \<or> err = OverflowError"
  by (auto simp add: parse_time_str_def index_def time_new_def Let_def
      split: if_splits option.splits sum.splits)

lemma native_value_str:
  assumes "get_field_name e c (class_field_type (time_class e)) = Inr field"
    and "data c field = Some (VStr s)"
  shows "native_value e c =
           (case parse_time_str s of
              Inr t \<Rightarrow> Inr t
            | Inl err \<Rightarrow> if err = OverflowError then Inl OverflowError
                         else class_default_time (time_class e))"
  using parse_time_str_errors [of s]
  by (auto simp add: native_value_def assms split: sum.splits error.splits)

lemma py_int_big: "py_int ''2147483648'' = Some 2147483648"
  by (simp add: py_int_def strip_def int_space_def is_digit_def digit_val_def int_digits_def
      int_max_str_digits_def Let_def)

lemma py_int_00: "py_int ''00'' = Some 0"
  by (simp add: py_int_def strip_def int_space_def is_digit_def digit_val_def int_digits_def
      int_max_str_digits_def Let_def)

lemma parse_time_str_big: "parse_time_str ''2147483648:00'' = Inl OverflowError"
  by (simp add: parse_time_str_def index_def py_int_big py_int_00 time_new_def c_int_ok_def
      Let_def)

text \<open>
  C9. The handler in \<open>native_value\<close> catches \<open>ValueError\<close> and \<open>IndexError\<close>. A stored
  string whose hour or minute does not fit a C \<open>int\<close> makes \<open>time(...)\<close> raise
  \<open>OverflowError\<close>, which is not caught: reading the charge start time with
  \<open>"2147483648:00"\<close> stored raises instead of giving the default 14:00.
\<close>

theorem native_value_overflow_escapes:
  "native_value \<lparr>time_class = GrowattChargeStartTimeEntity, segment_id = 1\<rparr>
     \<lparr>device_id = ''D1'', device_type = ''mix'', api_version = ''v1'', api_is_OpenApiV1 = True,
      data = [''forcedChargeTimeStart1'' \<mapsto> VStr ''2147483648:00'']\<rparr>
   = Inl OverflowError"
  by (simp add: native_value_def get_field_name_eq class_field_type_def is_charge_class_def
      str_of_int_1 parse_time_str_big)

section \<open>Properties of button.py\<close>

lemma bind_lift_Inl: "bind (lift (Inl err)) f = (Inl err, [])"
  by (simp add: bind_def lift_def)

lemma bind_lift_Inr: "bind (lift (Inr x)) f = f x"
  by (simp add: bind_def lift_def split: prod.splits)

lemma bind_lift: "bind (lift r) f = (case r of Inl err \<Rightarrow> (Inl err, []) | Inr x \<Rightarrow> f x)"
  by (cases r) (simp_all add: bind_lift_Inl bind_lift_Inr)

lemma bind_executor_job:
  "bind (executor_job api a) f =
     (case api a of
        Some err \<Rightarrow> (Inl err, [Vendor a (Some err)])
      | None \<Rightarrow> (case f () of (r, tr) \<Rightarrow> (r, Vendor a None # tr)))"
  by (simp add: bind_def executor_job_def split: option.splits prod.splits)

lemma traced_lift: "traced (lift r)"
  by (cases r) (simp_all add: traced_def lift_def)

lemma traced_executor_job: "traced (executor_job api a)"
  by (simp add: traced_def executor_job_def vendor_succeeded_def vendor_failed_with_def
      split: option.splits)

lemma traced_bind:
  assumes "traced m" and "\<And>x. traced (f x)"
  shows "traced (bind m f)"
proof (cases m)
  case (Pair r tr)
  show ?thesis
  proof (cases r)
    case (Inl err)
    with Pair assms(1) show ?thesis by (simp add: bind_def traced_def)
  next
    case (Inr x)
    obtain r' tr' where fx: "f x = (r', tr')" by (cases "f x")
    have ok: "list_all vendor_succeeded tr" using assms(1) Pair Inr by (simp add: traced_def)
    have t': "traced (r', tr')" using assms(2) [of x] fx by simp
    have b: "bind m f = (r', tr @ tr')" using Pair Inr fx by (simp add: bind_def)
    show ?thesis
    proof (cases r')
      case (Inr y)
      with t' ok b show ?thesis by (simp add: traced_def)
    next
      case (Inl err)
      with t' ok b show ?thesis
        by (auto simp add: traced_def butlast_append)
    qed
  qed
qed

lemma traced_apply_charge: "traced (apply_charge_settings py api h c)"
  by (auto simp add: apply_charge_settings_def Let_def
      intro!: traced_bind traced_lift traced_executor_job split: option.splits)

lemma traced_apply_discharge: "traced (apply_discharge_settings py api h c)"
  by (auto simp add: apply_discharge_settings_def Let_def
      intro!: traced_bind traced_lift traced_executor_job split: option.splits)


lemma sublist_join: "x \<in> set xs \<Longrightarrow> sublist x (join sep xs)"
proof (induction sep xs rule: join.induct)
  case (1 sep)
  then show ?case by simp
next
  case (2 sep y)
  then show ?case by simp
next
  case (3 sep y z zs)
  show ?case
  proof (cases "x = y")
    case True
    then show ?thesis by simp
  next
    case False
    with 3 have "sublist x (join sep (z # zs))" by simp
    then obtain ps ss where "join sep (z # zs) = ps @ x @ ss"
      by (auto simp add: sublist_def)
    then have "join sep (y # z # zs) = (y @ sep @ ps) @ x @ ss" by simp
    then show ?thesis unfolding sublist_def by blast
  qed
qed

lemma charge_missing_eq:
  "map snd (filter (\<lambda>p. fst p = None) (charge_required c f))
     = (if device_type c = ''tlx'' then charge_missing_tlx c f else charge_missing_mix c f)"
  by (simp add: charge_required_def charge_missing_tlx_def charge_missing_mix_def)

lemma discharge_missing_eq:
  "map snd (filter (\<lambda>p. fst p = None) (discharge_required c f))
     = (if device_type c = ''tlx'' then discharge_missing_tlx c f else discharge_missing_mix c f)"
  by (simp add: discharge_required_def discharge_missing_tlx_def discharge_missing_mix_def)

lemma apply_charge_not_v1:
  "\<not> api_is_OpenApiV1 c \<Longrightarrow> apply_charge_settings py api h c = (Inr (), [])"
  by (simp add: apply_charge_settings_def lift_def Let_def)

lemma apply_discharge_not_v1:
  "\<not> api_is_OpenApiV1 c \<Longrightarrow> apply_discharge_settings py api h c = (Inr (), [])"
  by (simp add: apply_discharge_settings_def lift_def Let_def)

lemma apply_charge_missing:
  assumes "api_is_OpenApiV1 c"
    and "map snd (filter (\<lambda>p. fst p = None) (charge_required c (charge_siblings h c))) \<noteq> []"
  shows "apply_charge_settings py api h c =
           (Inl (HomeAssistantError (charge_missing_msg
              (map snd (filter (\<lambda>p. fst p = None) (charge_required c (charge_siblings h c)))))),
            [])"
proof -
  let ?f = "charge_siblings h c"
  show ?thesis
  proof (cases "device_type c = ''tlx''")
    case True
    with assms show ?thesis
      unfolding charge_missing_eq
      by (cases "power_entity ?f"; cases "stop_soc_entity ?f")
         (simp_all add: apply_charge_settings_def Let_def lift_def charge_missing_tlx_def)
  next
    case False
    with assms show ?thesis
      unfolding charge_missing_eq
      by (cases "start_entity ?f"; cases "end_entity ?f"; cases "enabled_entity ?f";
          cases "power_entity ?f"; cases "stop_soc_entity ?f")
         (simp_all add: apply_charge_settings_def Let_def lift_def charge_missing_mix_def)
  qed
qed

lemma apply_discharge_missing:
  assumes "api_is_OpenApiV1 c"
    and "map snd (filter (\<lambda>p. fst p = None) (discharge_required c (discharge_siblings h c))) \<noteq> []"
  shows "apply_discharge_settings py api h c =
           (Inl (HomeAssistantError (discharge_missing_msg
              (map snd (filter (\<lambda>p. fst p = None)
                 (discharge_required c (discharge_siblings h c)))))),
            [])"
proof -
  let ?f = "discharge_siblings h c"
  show ?thesis
  proof (cases "device_type c = ''tlx''")
    case True
    with assms show ?thesis
      unfolding discharge_missing_eq
      by (cases "power_entity ?f"; cases "stop_soc_entity ?f")
         (simp_all add: apply_discharge_settings_def Let_def lift_def discharge_missing_tlx_def)
  next
    case False
    with assms show ?thesis
      unfolding discharge_missing_eq
      by (cases "start_entity ?f"; cases "end_entity ?f"; cases "enabled_entity ?f";
          cases "power_entity ?f"; cases "stop_soc_entity ?f")
         (simp_all add: apply_discharge_settings_def Let_def lift_def discharge_missing_mix_def)
  qed
qed

lemma async_press_eq:
  "async_press py api h c st =
     (case (if st = ''charge'' then apply_charge_settings py api h c
            else apply_discharge_settings py api h c) of
        (Inl err, tr) \<Rightarrow> (Inl (reraised st err), tr)
      | (Inr u, tr) \<Rightarrow> (Inr (), tr @ [Async_request_refresh]))"
  by (simp add: async_press_def bind_def reraised_def
      split: prod.splits sum.splits error.splits)


lemma charge_siblings_sample_tlx:
  "charge_siblings sample_hass tlx_v1 =
     \<lparr>power_entity = Some ''50'', stop_soc_entity = Some ''80'',
      start_entity = Some ''01:30:00'', end_entity = Some ''05:00:00'',
      enabled_entity = Some ''on''\<rparr>"
  by code_simp

lemma charge_siblings_sample_no_soc:
  "charge_siblings sample_hass_no_soc tlx_v1 =
     \<lparr>power_entity = Some ''50'', stop_soc_entity = None,
      start_entity = None, end_entity = None, enabled_entity = None\<rparr>"
  by code_simp


lemma absent_identifiers_eq:
  "absent_identifiers st h c =
     (if st = ''charge''
      then map snd (filter (\<lambda>p. fst p = None) (charge_required c (charge_siblings h c)))
      else map snd (filter (\<lambda>p. fst p = None) (discharge_required c (discharge_siblings h c))))"
  by (simp add: absent_identifiers_def required_entities_def)

lemma absent_identifiers_mem:
  "(None, i) \<in> set (required_entities st h c) \<Longrightarrow> i \<in> set (absent_identifiers st h c)"
  by (force simp add: absent_identifiers_def)

lemma missing_entities_raise:
  assumes "api_is_OpenApiV1 c" and "(None, i) \<in> set (required_entities st h c)"
  shows "async_press py api h c st
           = (Inl (HomeAssistantError (missing_msg st (absent_identifiers st h c))), [])
    \<and> i \<in> set (absent_identifiers st h c)
    \<and> sublist i (missing_msg st (absent_identifiers st h c))"
proof -
  have mem: "i \<in> set (absent_identifiers st h c)"
    using assms(2) by (rule absent_identifiers_mem)
  then have ne: "absent_identifiers st h c \<noteq> []" by auto
  have "sublist i (join '', '' (absent_identifiers st h c))"
    using mem by (rule sublist_join)
  then obtain ps ss where j: "join '', '' (absent_identifiers st h c) = ps @ i @ ss"
    by (auto simp add: sublist_def)
  have sub: "sublist i (missing_msg st (absent_identifiers st h c))"
    unfolding sublist_def missing_msg_def charge_missing_msg_def discharge_missing_msg_def j
    by (metis append.assoc)
  have press: "async_press py api h c st
           = (Inl (HomeAssistantError (missing_msg st (absent_identifiers st h c))), [])"
  proof (cases "st = ''charge''")
    case True
    with ne have "map snd (filter (\<lambda>p. fst p = None) (charge_required c (charge_siblings h c))) \<noteq> []"
      by (simp add: absent_identifiers_eq)
    from apply_charge_missing [OF assms(1) this, of py api] True show ?thesis
      by (simp add: async_press_eq reraised_def missing_msg_def absent_identifiers_eq)
  next
    case False
    with ne have "map snd (filter (\<lambda>p. fst p = None)
                    (discharge_required c (discharge_siblings h c))) \<noteq> []"
      by (simp add: absent_identifiers_eq)
    from apply_discharge_missing [OF assms(1) this, of py api] False show ?thesis
      by (simp add: async_press_eq reraised_def missing_msg_def absent_identifiers_eq)
  qed
  from press mem sub show ?thesis by simp
qed

lemma setup_button:
  assumes "\<lparr>button_coordinator = c, button_setting_type = st\<rparr>
             \<in> set (button_async_setup_entry devices)"
  shows "c \<in> set devices" and "api_version c = ''v1''"
    and "device_type c = ''mix'' \<or> device_type c = ''tlx''"
    and "st = ''charge'' \<or> st = ''discharge''"
  using assms by (induction devices) (auto split: if_splits)

lemma setup_button_guard:
  assumes "\<lparr>button_coordinator = c, button_setting_type = st\<rparr>
             \<in> set (button_async_setup_entry devices)"
    and "api_matches_version c"
  shows "api_is_OpenApiV1 c"
  using setup_button(2) [OF assms(1)] assms(2) by (simp add: api_matches_version_def)

lemma setup_tlx_v1:
  "button_async_setup_entry [tlx_v1] =
     [\<lparr>button_coordinator = tlx_v1, button_setting_type = ''charge''\<rparr>,
      \<lparr>button_coordinator = tlx_v1, button_setting_type = ''discharge''\<rparr>]"
  by (simp add: tlx_v1_def)

lemma setup_mix_v1:
  "button_async_setup_entry [mix_v1] =
     [\<lparr>button_coordinator = mix_v1, button_setting_type = ''charge''\<rparr>,
      \<lparr>button_coordinator = mix_v1, button_setting_type = ''discharge''\<rparr>]"
  by (simp add: mix_v1_def)

text \<open>
  C1. For every button that \<open>async_setup_entry\<close> creates (charge or discharge, device
  family \<open>tlx\<close> or \<open>mix\<close>, coordinator tagged \<open>v1\<close> and so holding an \<open>OpenApiV1\<close>
  client): when any entity required for the family has no state, the press
  raises \<open>HomeAssistantError\<close>; its message is the fixed prefix followed by the
  identifiers of all absent entities joined by commas, so it contains the identifier of
  each one; and the trace is empty: no vendor call and no refresh request was made.
\<close>

theorem missing_entities_raise_before_any_call:
  assumes "\<lparr>button_coordinator = c, button_setting_type = st\<rparr>
             \<in> set (button_async_setup_entry devices)"
    and "api_matches_version c"
    and "(None, i) \<in> set (required_entities st h c)"
  shows "async_press py api h c st
           = (Inl (HomeAssistantError (missing_msg st (absent_identifiers st h c))), [])
    \<and> i \<in> set (absent_identifiers st h c)
    \<and> sublist i (missing_msg st (absent_identifiers st h c))"
  using setup_button_guard [OF assms(1) assms(2)] assms(3)
  by (rule missing_entities_raise)

theorem missing_entities_raise_before_any_call_witness:
  "\<lparr>button_coordinator = tlx_v1, button_setting_type = ''charge''\<rparr>
     \<in> set (button_async_setup_entry [tlx_v1])
   \<and> api_matches_version tlx_v1
   \<and> (None, ''number.D1_charge_stop_soc'') \<in> set (required_entities ''charge'' sample_hass_no_soc tlx_v1)
   \<and> async_press sample_python accepts_all sample_hass_no_soc tlx_v1 ''charge''
       = (Inl (HomeAssistantError
            ''Could not find all charge setting entities. Missing: number.D1_charge_stop_soc''), [])"
proof -
  have b: "\<lparr>button_coordinator = tlx_v1, button_setting_type = ''charge''\<rparr>
     \<in> set (button_async_setup_entry [tlx_v1])"
    unfolding setup_tlx_v1 by simp
  have v: "api_matches_version tlx_v1" by (simp add: api_matches_version_def tlx_v1_def)
  have r: "required_entities ''charge'' sample_hass_no_soc tlx_v1
             = [(Some ''50'', ''number.D1_charge_power''), (None, ''number.D1_charge_stop_soc'')]"
    by (simp add: required_entities_def charge_required_def charge_siblings_sample_no_soc)
       (simp add: tlx_v1_def)
  have m: "(None, ''number.D1_charge_stop_soc'') \<in> set (required_entities ''charge'' sample_hass_no_soc tlx_v1)"
    by (simp add: r)
  have a: "missing_msg ''charge'' (absent_identifiers ''charge'' sample_hass_no_soc tlx_v1)
             = ''Could not find all charge setting entities. Missing: number.D1_charge_stop_soc''"
    by (simp add: absent_identifiers_def r missing_msg_def charge_missing_msg_def)
  show ?thesis
    using b v m missing_entities_raise_before_any_call [OF b v m, of sample_python accepts_all]
    by (simp add: a)
qed

lemma traced_no_refresh: "traced (r, tr) \<Longrightarrow> Async_request_refresh \<notin> set tr"
proof -
  assume t: "traced (r, tr)"
  have ok: "\<And>ws. list_all vendor_succeeded ws \<Longrightarrow> Async_request_refresh \<notin> set ws"
    by (auto simp add: list_all_iff vendor_succeeded_def)
  show ?thesis
  proof (cases "list_all vendor_succeeded tr")
    case True
    then show ?thesis by (rule ok)
  next
    case False
    with t obtain err where ne: "tr \<noteq> []" and b: "list_all vendor_succeeded (butlast tr)"
      and l: "vendor_failed_with err (last tr)"
      by (cases r) (auto simp add: traced_def)
    have "tr = butlast tr @ [last tr]" using ne by simp
    from arg_cong [OF this, of set] have "set tr = set (butlast tr) \<union> {last tr}"
      by simp
    moreover have "last tr \<noteq> Async_request_refresh"
      using l by (auto simp add: vendor_failed_with_def)
    ultimately show ?thesis using ok [OF b] by auto
  qed
qed

lemma traced_failure_last:
  assumes "traced (r, tr)" and "Vendor a (Some err) \<in> set tr"
  shows "r = Inl err \<and> (\<exists>ws. tr = ws @ [Vendor a (Some err)] \<and> list_all vendor_succeeded ws)"
proof -
  have ok: "\<And>ws. list_all vendor_succeeded ws \<Longrightarrow> Vendor a (Some err) \<notin> set ws"
    by (auto simp add: list_all_iff vendor_succeeded_def)
  from assms(2) ok have nall: "\<not> list_all vendor_succeeded tr" by blast
  with assms(1) obtain err' where r: "r = Inl err'" and ne: "tr \<noteq> []"
    and b: "list_all vendor_succeeded (butlast tr)" and l: "vendor_failed_with err' (last tr)"
    by (cases r) (auto simp add: traced_def)
  have tr: "tr = butlast tr @ [last tr]" using ne by simp
  have "set tr = set (butlast tr) \<union> {last tr}"
    using arg_cong [OF tr, of set] by simp
  with assms(2) ok [OF b] have e: "last tr = Vendor a (Some err)" by auto
  with l have "err' = err" by (simp add: vendor_failed_with_def)
  with r tr e b show ?thesis by metis
qed

lemma traced_apply:
  "traced (if st = ''charge'' then apply_charge_settings py api h c
           else apply_discharge_settings py api h c)"
  by (simp add: traced_apply_charge traced_apply_discharge)

lemma async_press_cases:
  assumes "async_press py api h c st = (r, tr)"
  obtains (ok) tr0 where "r = Inr ()" "tr = tr0 @ [Async_request_refresh]"
      "list_all vendor_succeeded tr0"
      "(if st = ''charge'' then apply_charge_settings py api h c
        else apply_discharge_settings py api h c) = (Inr (), tr0)"
    | (raised) err where "r = Inl (reraised st err)" "traced (Inl err :: error + unit, tr)"
      "(if st = ''charge'' then apply_charge_settings py api h c
        else apply_discharge_settings py api h c) = (Inl err, tr)"
proof -
  let ?m = "if st = ''charge'' then apply_charge_settings py api h c
           else apply_discharge_settings py api h c"
  obtain r0 tr0 where m: "?m = (r0, tr0)" by (cases ?m)
  have t: "traced (r0, tr0)" using traced_apply [of st py api h c] m by simp
  show thesis
  proof (cases r0)
    case (Inl err)
    have "async_press py api h c st = (Inl (reraised st err), tr0)"
      unfolding async_press_eq m Inl by simp
    with assms have "r = Inl (reraised st err)" "tr = tr0" by simp_all
    with t Inl m raised show thesis by simp
  next
    case (Inr u)
    have "async_press py api h c st = (Inr (), tr0 @ [Async_request_refresh])"
      unfolding async_press_eq m Inr by simp
    with assms have "r = Inr ()" "tr = tr0 @ [Async_request_refresh]" by simp_all
    moreover have "list_all vendor_succeeded tr0" using t Inr by (simp add: traced_def)
    ultimately show thesis using ok m Inr by simp
  qed
qed

text \<open>
  C4. A press requests the coordinator refresh at most once. When the press returns, the
  trace is the vendor calls, every one of which returned, followed by the single refresh
  request. When the press raises (the validation error, a parser's exception, or any
  exception of a vendor call) the trace holds no refresh request.
\<close>

theorem refresh_only_after_success:
  assumes "async_press py api h c st = (r, tr)"
  shows "(case r of
            Inr u \<Rightarrow> (\<exists>ws. tr = ws @ [Async_request_refresh] \<and> list_all vendor_succeeded ws)
          | Inl err \<Rightarrow> Async_request_refresh \<notin> set tr)
    \<and> count_list tr Async_request_refresh = (case r of Inr u \<Rightarrow> 1 | Inl err \<Rightarrow> 0)"
  using assms
proof (cases rule: async_press_cases)
  case (ok tr0)
  have "Async_request_refresh \<notin> set tr0"
    using ok(3) by (auto simp add: list_all_iff vendor_succeeded_def)
  then have "count_list tr0 Async_request_refresh = 0" by (simp add: count_list_0_iff)
  with ok show ?thesis by auto
next
  case (raised err)
  have "Async_request_refresh \<notin> set tr" using raised(2) by (rule traced_no_refresh)
  then show ?thesis using raised(1) by (simp add: count_list_0_iff)
qed

text \<open>
  C5. A vendor call that raises \<open>GrowattV1ApiError\<close> during a press is the last thing the
  press does: everything before it in the trace is a vendor call that returned, nothing
  follows it (no second attempt, no refresh), and the press raises \<open>HomeAssistantError\<close>
  with the message \<open>Error applying <setting type> settings: <error>\<close>.
\<close>

theorem vendor_error_reraised_once:
  assumes "async_press py api h c st = (r, tr)"
    and "Vendor a (Some (GrowattV1ApiError m)) \<in> set tr"
  shows "r = Inl (HomeAssistantError (''Error applying '' @ st @ '' settings: '' @ m))
    \<and> (\<exists>ws. tr = ws @ [Vendor a (Some (GrowattV1ApiError m))] \<and> list_all vendor_succeeded ws)"
  using assms(1)
proof (cases rule: async_press_cases)
  case (ok tr0)
  have "Vendor a (Some (GrowattV1ApiError m)) \<notin> set tr0"
    using ok(3) by (auto simp add: list_all_iff vendor_succeeded_def)
  with ok(2) assms(2) show ?thesis by simp
next
  case (raised err)
  from traced_failure_last [OF raised(2) assms(2)]
  have "err = GrowattV1ApiError m"
    and "\<exists>ws. tr = ws @ [Vendor a (Some (GrowattV1ApiError m))] \<and> list_all vendor_succeeded ws"
    by simp_all
  with raised(1) show ?thesis by (simp add: reraised_def press_error_msg_def)
qed


lemma apply_sample_tlx:
  "apply_charge_settings sample_python accepts_all sample_hass tlx_v1 =
     (Inr (),
      [Vendor (Write_parameter ''D1'' MIN_TLX ''charge_power''
         \<lparr>cd_charge_power = 50, cd_charge_stop_soc = 0, cd_discharge_power = 0,
          cd_discharge_stop_soc = 0, cd_ac_charge_enabled = False\<rparr>) None,
       Vendor (Write_parameter ''D1'' MIN_TLX ''charge_stop_soc''
         \<lparr>cd_charge_power = 0, cd_charge_stop_soc = 80, cd_discharge_power = 0,
          cd_discharge_stop_soc = 0, cd_ac_charge_enabled = False\<rparr>) None])"
  by code_simp

lemma apply_sample_tlx_rejected:
  "apply_charge_settings sample_python rejects_stop_soc sample_hass tlx_v1 =
     (Inl (GrowattV1ApiError ''error_code 10012''),
      [Vendor (Write_parameter ''D1'' MIN_TLX ''charge_power''
         \<lparr>cd_charge_power = 50, cd_charge_stop_soc = 0, cd_discharge_power = 0,
          cd_discharge_stop_soc = 0, cd_ac_charge_enabled = False\<rparr>) None,
       Vendor (Write_parameter ''D1'' MIN_TLX ''charge_stop_soc''
         \<lparr>cd_charge_power = 0, cd_charge_stop_soc = 80, cd_discharge_power = 0,
          cd_discharge_stop_soc = 0, cd_ac_charge_enabled = False\<rparr>)
         (Some (GrowattV1ApiError ''error_code 10012''))])"
  by code_simp

lemma apply_sample_mix:
  "apply_charge_settings sample_python accepts_all sample_hass mix_v1 =
     (Inr (),
      [Vendor (Write_time_segment ''D1'' SPH_MIX ''mix_ac_charge_time_period''
         (ChargeTime
            \<lparr>mc_charge_power = 50, mc_charge_stop_soc = 80, mc_mains_enabled = True,
             mc_start_hour = 1, mc_start_minute = 30, mc_end_hour = 5, mc_end_minute = 0,
             mc_enabled = True, mc_segment_id = 1\<rparr>)) None])"
  by code_simp

lemma apply_charge_tlx_trace:
  assumes "device_type c = ''tlx''" and "apply_charge_settings py api h c = (r, tr)"
  shows "tr = [] \<or> (\<exists>p s out.
           tr = [Vendor (Write_parameter (device_id c) MIN_TLX ''charge_power''
                   (charge_power_params p)) out]
           \<or> tr = [Vendor (Write_parameter (device_id c) MIN_TLX ''charge_power''
                      (charge_power_params p)) None,
                    Vendor (Write_parameter (device_id c) MIN_TLX ''charge_stop_soc''
                      (charge_soc_params s)) out])"
  using assms unfolding apply_charge_settings_def Let_def bind_lift bind_executor_job
  by (auto simp add: executor_job_def lift_def vendor_device_type_def
      split: option.splits sum.splits if_splits prod.splits)

lemma apply_discharge_tlx_trace:
  assumes "device_type c = ''tlx''" and "apply_discharge_settings py api h c = (r, tr)"
  shows "tr = [] \<or> (\<exists>p s out.
           tr = [Vendor (Write_parameter (device_id c) MIN_TLX ''discharge_power''
                   (discharge_power_params p)) out]
           \<or> tr = [Vendor (Write_parameter (device_id c) MIN_TLX ''discharge_power''
                      (discharge_power_params p)) None,
                    Vendor (Write_parameter (device_id c) MIN_TLX ''discharge_stop_soc''
                      (discharge_soc_params s)) out])"
  using assms unfolding apply_discharge_settings_def Let_def bind_lift bind_executor_job
  by (auto simp add: executor_job_def lift_def vendor_device_type_def
      split: option.splits sum.splits if_splits prod.splits)

text \<open>
  C3. On a \<open>tlx\<close> device, when the trace of a press starts with a vendor call that
  returned followed by one that raised, these two \<open>write_parameter\<close> calls (power, then
  stop SOC, of the charge or of the discharge settings) are the whole trace: nothing is
  called after the failure to undo the first write, and the press raises the error
  (\<open>GrowattV1ApiError\<close> as \<open>HomeAssistantError\<close>, any other exception unchanged).
\<close>

theorem tlx_second_write_failure_keeps_first:
  assumes "device_type c = ''tlx''"
    and "async_press py api h c st = (r, tr)"
    and "tr = Vendor a1 None # Vendor a2 (Some err) # rest"
  shows "rest = [] \<and> r = Inl (reraised st err)
    \<and> (\<exists>p s. if st = ''charge''
          then a1 = Write_parameter (device_id c) MIN_TLX ''charge_power'' (charge_power_params p)
             \<and> a2 = Write_parameter (device_id c) MIN_TLX ''charge_stop_soc'' (charge_soc_params s)
          else a1 = Write_parameter (device_id c) MIN_TLX ''discharge_power''
                      (discharge_power_params p)
             \<and> a2 = Write_parameter (device_id c) MIN_TLX ''discharge_stop_soc''
                      (discharge_soc_params s))"
  using assms(2)
proof (cases rule: async_press_cases)
  case (ok tr0)
  have "\<not> vendor_succeeded (Vendor a2 (Some err))" by (simp add: vendor_succeeded_def)
  moreover have "Vendor a2 (Some err) \<in> set tr" using assms(3) by simp
  then have "Vendor a2 (Some err) \<in> set tr0" unfolding ok(2) by simp
  ultimately show ?thesis using ok(3) by (auto simp add: list_all_iff)
next
  case (raised err0)
  have ids: "\<exists>p s. if st = ''charge''
          then a1 = Write_parameter (device_id c) MIN_TLX ''charge_power'' (charge_power_params p)
             \<and> a2 = Write_parameter (device_id c) MIN_TLX ''charge_stop_soc'' (charge_soc_params s)
             \<and> rest = []
          else a1 = Write_parameter (device_id c) MIN_TLX ''discharge_power''
                      (discharge_power_params p)
             \<and> a2 = Write_parameter (device_id c) MIN_TLX ''discharge_stop_soc''
                      (discharge_soc_params s)
             \<and> rest = []"
  proof (cases "st = ''charge''")
    case True
    with raised(3) have "apply_charge_settings py api h c = (Inl err0, tr)" by simp
    from apply_charge_tlx_trace [OF assms(1) this] assms(3) True show ?thesis by auto
  next
    case False
    with raised(3) have "apply_discharge_settings py api h c = (Inl err0, tr)" by simp
    from apply_discharge_tlx_trace [OF assms(1) this] assms(3) False show ?thesis by auto
  qed
  then have rest: "rest = []" by (auto split: if_splits)
  have "Vendor a2 (Some err) \<in> set tr" using assms(3) by simp
  from traced_failure_last [OF raised(2) this] have "err0 = err" by simp
  with raised(1) rest ids show ?thesis by (auto split: if_splits)
qed

lemma press_sample_tlx_rejected:
  "async_press sample_python rejects_stop_soc sample_hass tlx_v1 ''charge''
       = (Inl (HomeAssistantError ''Error applying charge settings: error_code 10012''),
          [Vendor (Write_parameter ''D1'' MIN_TLX ''charge_power'' (charge_power_params 50)) None,
           Vendor (Write_parameter ''D1'' MIN_TLX ''charge_stop_soc'' (charge_soc_params 80))
             (Some (GrowattV1ApiError ''error_code 10012''))])"
  by (simp add: async_press_eq apply_sample_tlx_rejected reraised_def press_error_msg_def
      charge_power_params_def charge_soc_params_def)

lemma press_sample_tlx:
  "async_press sample_python accepts_all sample_hass tlx_v1 ''charge''
       = (Inr (),
          [Vendor (Write_parameter ''D1'' MIN_TLX ''charge_power'' (charge_power_params 50)) None,
           Vendor (Write_parameter ''D1'' MIN_TLX ''charge_stop_soc'' (charge_soc_params 80)) None,
           Async_request_refresh])"
  by (simp add: async_press_eq apply_sample_tlx charge_power_params_def charge_soc_params_def)

theorem tlx_second_write_failure_keeps_first_witness:
  "device_type tlx_v1 = ''tlx''
   \<and> async_press sample_python rejects_stop_soc sample_hass tlx_v1 ''charge''
       = (Inl (HomeAssistantError ''Error applying charge settings: error_code 10012''),
          [Vendor (Write_parameter ''D1'' MIN_TLX ''charge_power'' (charge_power_params 50)) None,
           Vendor (Write_parameter ''D1'' MIN_TLX ''charge_stop_soc'' (charge_soc_params 80))
             (Some (GrowattV1ApiError ''error_code 10012''))])"
proof -
  have d: "device_type tlx_v1 = ''tlx''" by (simp add: tlx_v1_def)
  show ?thesis
    using d press_sample_tlx_rejected
      tlx_second_write_failure_keeps_first [OF d press_sample_tlx_rejected refl]
    by simp
qed

lemma apply_charge_tlx_eq:
  assumes "api_is_OpenApiV1 c" and "device_type c = ''tlx''"
    and "power_entity (charge_siblings h c) = Some power_state"
    and "stop_soc_entity (charge_siblings h c) = Some stop_soc_state"
    and "int_float py power_state = Inr p" and "int_float py stop_soc_state = Inr s"
  shows "apply_charge_settings py api h c =
           (case api (Write_parameter (device_id c) MIN_TLX ''charge_power''
                        (charge_power_params p)) of
              Some err \<Rightarrow>
                (Inl err,
                 [Vendor (Write_parameter (device_id c) MIN_TLX ''charge_power''
                            (charge_power_params p)) (Some err)])
            | None \<Rightarrow>
                (case api (Write_parameter (device_id c) MIN_TLX ''charge_stop_soc''
                             (charge_soc_params s)) of
                   Some err \<Rightarrow>
                     (Inl err,
                      [Vendor (Write_parameter (device_id c) MIN_TLX ''charge_power''
                                 (charge_power_params p)) None,
                       Vendor (Write_parameter (device_id c) MIN_TLX ''charge_stop_soc''
                                 (charge_soc_params s)) (Some err)])
                 | None \<Rightarrow>
                     (Inr (),
                      [Vendor (Write_parameter (device_id c) MIN_TLX ''charge_power''
                                 (charge_power_params p)) None,
                       Vendor (Write_parameter (device_id c) MIN_TLX ''charge_stop_soc''
                                 (charge_soc_params s)) None])))"
  using assms unfolding apply_charge_settings_def Let_def bind_lift bind_executor_job
  by (simp add: executor_job_def vendor_device_type_def split: option.splits)

lemma apply_charge_mix_eq:
  assumes "api_is_OpenApiV1 c" and "device_type c \<noteq> ''tlx''"
    and "start_entity (charge_siblings h c) = Some start_state"
    and "end_entity (charge_siblings h c) = Some end_state"
    and "enabled_entity (charge_siblings h c) = Some enabled_state"
    and "power_entity (charge_siblings h c) = Some power_state"
    and "stop_soc_entity (charge_siblings h c) = Some stop_soc_state"
    and "fromisoformat py start_state = Inr start_time"
    and "fromisoformat py end_state = Inr end_time"
    and "int_float py power_state = Inr p" and "int_float py stop_soc_state = Inr s"
    and "mains_enabled c = Inr mains"
    and "w = Write_time_segment (device_id c) SPH_MIX ''mix_ac_charge_time_period''
               (ChargeTime
                  \<lparr>mc_charge_power = p, mc_charge_stop_soc = s, mc_mains_enabled = mains,
                   mc_start_hour = hour start_time, mc_start_minute = minute start_time,
                   mc_end_hour = hour end_time, mc_end_minute = minute end_time,
                   mc_enabled = (enabled_state = ''on''), mc_segment_id = 1\<rparr>)"
  shows "apply_charge_settings py api h c =
           (case api w of
              Some err \<Rightarrow> (Inl err, [Vendor w (Some err)])
            | None \<Rightarrow> (Inr (), [Vendor w None]))"
  using assms unfolding apply_charge_settings_def Let_def bind_lift
  by (simp add: executor_job_def vendor_device_type_def split: option.splits)

text \<open>
  C2. For the charge button that \<open>async_setup_entry\<close> creates (coordinator tagged \<open>v1\<close>
  and so holding an \<open>OpenApiV1\<close> client), with the required entities present and their
  states parsed. On a \<open>tlx\<close> device \<open>_apply_charge_settings\<close> issues
  \<open>write_parameter\<close> for \<open>charge_power\<close> with only the charge power set, and once that
  call has returned \<open>write_parameter\<close> for \<open>charge_stop_soc\<close> with only the stop SOC set:
  when both return the trace is exactly these two calls and the function returns; a call
  that raises ends the trace. On a \<open>mix\<close> device it issues exactly one
  \<open>write_time_segment\<close> call for \<open>mix_ac_charge_time_period\<close> carrying power, stop SOC,
  mains flag, start and end hour and minute, enabled flag and segment 1.
\<close>

theorem charge_writes_by_family:
  assumes "\<lparr>button_coordinator = c, button_setting_type = ''charge''\<rparr>
             \<in> set (button_async_setup_entry devices)"
    and "api_matches_version c"
    and "power_entity (charge_siblings h c) = Some power_state"
    and "stop_soc_entity (charge_siblings h c) = Some stop_soc_state"
    and "int_float py power_state = Inr p" and "int_float py stop_soc_state = Inr s"
    and "w1 = Write_parameter (device_id c) MIN_TLX ''charge_power''
                \<lparr>cd_charge_power = p, cd_charge_stop_soc = 0, cd_discharge_power = 0,
                 cd_discharge_stop_soc = 0, cd_ac_charge_enabled = False\<rparr>"
    and "w2 = Write_parameter (device_id c) MIN_TLX ''charge_stop_soc''
                \<lparr>cd_charge_power = 0, cd_charge_stop_soc = s, cd_discharge_power = 0,
                 cd_discharge_stop_soc = 0, cd_ac_charge_enabled = False\<rparr>"
  shows "if device_type c = ''tlx'' then
           apply_charge_settings py api h c =
             (case api w1 of
                Some err \<Rightarrow> (Inl err, [Vendor w1 (Some err)])
              | None \<Rightarrow>
                  (case api w2 of
                     Some err \<Rightarrow> (Inl err, [Vendor w1 None, Vendor w2 (Some err)])
                   | None \<Rightarrow> (Inr (), [Vendor w1 None, Vendor w2 None])))
         else
           device_type c = ''mix''
           \<and> (\<forall>start_state end_state enabled_state start_time end_time mains.
                 start_entity (charge_siblings h c) = Some start_state
                 \<and> end_entity (charge_siblings h c) = Some end_state
                 \<and> enabled_entity (charge_siblings h c) = Some enabled_state
                 \<and> fromisoformat py start_state = Inr start_time
                 \<and> fromisoformat py end_state = Inr end_time
                 \<and> mains_enabled c = Inr mains
                 \<longrightarrow> apply_charge_settings py api h c =
                       (case api (Write_time_segment (device_id c) SPH_MIX
                                    ''mix_ac_charge_time_period''
                                    (ChargeTime
                                       \<lparr>mc_charge_power = p, mc_charge_stop_soc = s,
                                        mc_mains_enabled = mains,
                                        mc_start_hour = hour start_time,
                                        mc_start_minute = minute start_time,
                                        mc_end_hour = hour end_time,
                                        mc_end_minute = minute end_time,
                                        mc_enabled = (enabled_state = ''on''),
                                        mc_segment_id = 1\<rparr>)) of
                          Some err \<Rightarrow>
                            (Inl err,
                             [Vendor (Write_time_segment (device_id c) SPH_MIX
                                        ''mix_ac_charge_time_period''
                                        (ChargeTime
                                           \<lparr>mc_charge_power = p, mc_charge_stop_soc = s,
                                            mc_mains_enabled = mains,
                                            mc_start_hour = hour start_time,
                                            mc_start_minute = minute start_time,
                                            mc_end_hour = hour end_time,
                                            mc_end_minute = minute end_time,
                                            mc_enabled = (enabled_state = ''on''),
                                            mc_segment_id = 1\<rparr>)) (Some err)])
                        | None \<Rightarrow>
                            (Inr (),
                             [Vendor (Write_time_segment (device_id c) SPH_MIX
                                        ''mix_ac_charge_time_period''
                                        (ChargeTime
                                           \<lparr>mc_charge_power = p, mc_charge_stop_soc = s,
                                            mc_mains_enabled = mains,
                                            mc_start_hour = hour start_time,
                                            mc_start_minute = minute start_time,
                                            mc_end_hour = hour end_time,
                                            mc_end_minute = minute end_time,
                                            mc_enabled = (enabled_state = ''on''),
                                            mc_segment_id = 1\<rparr>)) None])))"
proof -
  have v1: "api_is_OpenApiV1 c" using assms(1) assms(2) by (rule setup_button_guard)
  have fam: "device_type c = ''mix'' \<or> device_type c = ''tlx''"
    using assms(1) by (rule setup_button(3))
  show ?thesis
  proof (cases "device_type c = ''tlx''")
    case True
    show ?thesis
      unfolding if_P [OF True] assms(7) assms(8)
      using apply_charge_tlx_eq [OF v1 True assms(3) assms(4) assms(5) assms(6), of api]
      unfolding charge_power_params_def charge_soc_params_def .
  next
    case False
    with fam have mix: "device_type c = ''mix''" by simp
    have "\<And>start_state end_state enabled_state start_time end_time mains w.
            start_entity (charge_siblings h c) = Some start_state \<Longrightarrow>
            end_entity (charge_siblings h c) = Some end_state \<Longrightarrow>
            enabled_entity (charge_siblings h c) = Some enabled_state \<Longrightarrow>
            fromisoformat py start_state = Inr start_time \<Longrightarrow>
            fromisoformat py end_state = Inr end_time \<Longrightarrow>
            mains_enabled c = Inr mains \<Longrightarrow>
            w = Write_time_segment (device_id c) SPH_MIX ''mix_ac_charge_time_period''
               (ChargeTime
                  \<lparr>mc_charge_power = p, mc_charge_stop_soc = s, mc_mains_enabled = mains,
                   mc_start_hour = hour start_time, mc_start_minute = minute start_time,
                   mc_end_hour = hour end_time, mc_end_minute = minute end_time,
                   mc_enabled = (enabled_state = ''on''), mc_segment_id = 1\<rparr>) \<Longrightarrow>
            apply_charge_settings py api h c =
              (case api w of
                 Some err \<Rightarrow> (Inl err, [Vendor w (Some err)])
               | None \<Rightarrow> (Inr (), [Vendor w None]))"
      using apply_charge_mix_eq [OF v1 False _ _ _ assms(3) assms(4) _ _ assms(5) assms(6)]
      by blast
    with False mix show ?thesis by simp
  qed
qed

theorem charge_writes_by_family_witness:
  "\<lparr>button_coordinator = tlx_v1, button_setting_type = ''charge''\<rparr>
     \<in> set (button_async_setup_entry [tlx_v1])
   \<and> api_matches_version tlx_v1
   \<and> power_entity (charge_siblings sample_hass tlx_v1) = Some ''50''
   \<and> stop_soc_entity (charge_siblings sample_hass tlx_v1) = Some ''80''
   \<and> int_float sample_python ''50'' = Inr 50
   \<and> int_float sample_python ''80'' = Inr 80
   \<and> apply_charge_settings sample_python accepts_all sample_hass tlx_v1 =
     (Inr (),
      [Vendor (Write_parameter ''D1'' MIN_TLX ''charge_power''
         \<lparr>cd_charge_power = 50, cd_charge_stop_soc = 0, cd_discharge_power = 0,
          cd_discharge_stop_soc = 0, cd_ac_charge_enabled = False\<rparr>) None,
       Vendor (Write_parameter ''D1'' MIN_TLX ''charge_stop_soc''
         \<lparr>cd_charge_power = 0, cd_charge_stop_soc = 80, cd_discharge_power = 0,
          cd_discharge_stop_soc = 0, cd_ac_charge_enabled = False\<rparr>) None])
   \<and> apply_charge_settings sample_python rejects_stop_soc sample_hass tlx_v1 =
     (Inl (GrowattV1ApiError ''error_code 10012''),
      [Vendor (Write_parameter ''D1'' MIN_TLX ''charge_power''
         \<lparr>cd_charge_power = 50, cd_charge_stop_soc = 0, cd_discharge_power = 0,
          cd_discharge_stop_soc = 0, cd_ac_charge_enabled = False\<rparr>) None,
       Vendor (Write_parameter ''D1'' MIN_TLX ''charge_stop_soc''
         \<lparr>cd_charge_power = 0, cd_charge_stop_soc = 80, cd_discharge_power = 0,
          cd_discharge_stop_soc = 0, cd_ac_charge_enabled = False\<rparr>)
         (Some (GrowattV1ApiError ''error_code 10012''))])"
proof -
  have b: "\<lparr>button_coordinator = tlx_v1, button_setting_type = ''charge''\<rparr>
     \<in> set (button_async_setup_entry [tlx_v1])"
    unfolding setup_tlx_v1 by simp
  have v: "api_matches_version tlx_v1" by (simp add: api_matches_version_def tlx_v1_def)
  have e: "power_entity (charge_siblings sample_hass tlx_v1) = Some ''50''"
    "stop_soc_entity (charge_siblings sample_hass tlx_v1) = Some ''80''"
    by (simp_all add: charge_siblings_sample_tlx)
  have i: "int_float sample_python ''50'' = Inr 50" "int_float sample_python ''80'' = Inr 80"
    by (simp_all add: sample_python_def)
  have d: "device_type tlx_v1 = ''tlx''" "device_id tlx_v1 = ''D1''"
    by (simp_all add: tlx_v1_def)
  have a: "accepts_all w = None" for w by (simp add: accepts_all_def)
  have r: "rejects_stop_soc (Write_parameter dev dt ''charge_power'' ps) = None"
    "rejects_stop_soc (Write_parameter dev dt ''charge_stop_soc'' ps)
       = Some (GrowattV1ApiError ''error_code 10012'')" for dev dt ps
    by (simp_all add: rejects_stop_soc_def)
  show ?thesis
    using b v e i
      charge_writes_by_family [OF b v e i refl refl, of accepts_all]
      charge_writes_by_family [OF b v e i refl refl, of rejects_stop_soc]
    by (simp add: d a r)
qed

theorem refresh_only_after_success_witness:
  "async_press sample_python accepts_all sample_hass tlx_v1 ''charge''
       = (Inr (),
          [Vendor (Write_parameter ''D1'' MIN_TLX ''charge_power'' (charge_power_params 50)) None,
           Vendor (Write_parameter ''D1'' MIN_TLX ''charge_stop_soc'' (charge_soc_params 80)) None,
           Async_request_refresh])
   \<and> async_press sample_python rejects_stop_soc sample_hass tlx_v1 ''charge''
       = (Inl (HomeAssistantError ''Error applying charge settings: error_code 10012''),
          [Vendor (Write_parameter ''D1'' MIN_TLX ''charge_power'' (charge_power_params 50)) None,
           Vendor (Write_parameter ''D1'' MIN_TLX ''charge_stop_soc'' (charge_soc_params 80))
             (Some (GrowattV1ApiError ''error_code 10012''))])"
  using press_sample_tlx press_sample_tlx_rejected
    refresh_only_after_success [OF press_sample_tlx]
    refresh_only_after_success [OF press_sample_tlx_rejected]
  by simp

theorem vendor_error_reraised_once_witness:
  "Vendor (Write_parameter ''D1'' MIN_TLX ''charge_stop_soc'' (charge_soc_params 80))
      (Some (GrowattV1ApiError ''error_code 10012''))
     \<in> set (snd (async_press sample_python rejects_stop_soc sample_hass tlx_v1 ''charge''))
   \<and> fst (async_press sample_python rejects_stop_soc sample_hass tlx_v1 ''charge'')
       = Inl (HomeAssistantError ''Error applying charge settings: error_code 10012'')"
proof -
  have m: "Vendor (Write_parameter ''D1'' MIN_TLX ''charge_stop_soc'' (charge_soc_params 80))
      (Some (GrowattV1ApiError ''error_code 10012''))
     \<in> set [Vendor (Write_parameter ''D1'' MIN_TLX ''charge_power'' (charge_power_params 50)) None,
           Vendor (Write_parameter ''D1'' MIN_TLX ''charge_stop_soc'' (charge_soc_params 80))
             (Some (GrowattV1ApiError ''error_code 10012''))]"
    by simp
  show ?thesis
    using vendor_error_reraised_once [OF press_sample_tlx_rejected m]
    by (simp add: press_sample_tlx_rejected)
qed

end
